theory Spec2Isabelle
  imports Main "HOL-Library.Word" "HOL-Library.AList"
begin

section \<open>Python values, sequences, exceptions and the object store\<close>

text \<open>
  The values a field of a \<^verbatim>\<open>Struct\<close> can hold: \<^verbatim>\<open>None\<close>, an (unbounded) integer, a
  float (an IEEE-754 binary64 number, kept as its 64-bit pattern), a \<^verbatim>\<open>bytes\<close> object
  and a \<^verbatim>\<open>str\<close>. All of them are immutable Python objects.
\<close>

type_synonym byte = "8 word"

datatype pyval = PyNone | PyInt int | PyFloat "64 word" | PyBytes "byte list" | PyStr string

text \<open>
  \<^verbatim>\<open>self.values\<close> is a list after \<^verbatim>\<open>__init__\<close> and a tuple after \<^verbatim>\<open>unpack\<close>
  (\<^verbatim>\<open>struct.unpack\<close> returns a tuple). A list is mutable and has an identity, so sequences
  live in a store and are referred to by address.
\<close>

datatype pyseq = PyList "pyval list" | PyTuple "pyval list"

type_synonym addr = nat
type_synonym heap = "pyseq list"

definition alloc :: "heap \<Rightarrow> pyseq \<Rightarrow> addr \<times> heap" where
  "alloc h s = (length h, h @ [s])"

fun items :: "pyseq \<Rightarrow> pyval list" where
  "items (PyList xs) = xs"
| "items (PyTuple xs) = xs"

text \<open>
  The exceptions of the program: the library's own \<^verbatim>\<open>StructException\<close> (its two uses in the
  modelled code carry different messages), Python's \<^verbatim>\<open>KeyError\<close>, \<^verbatim>\<open>TypeError\<close>,
  \<^verbatim>\<open>IndexError\<close>, \<^verbatim>\<open>OverflowError\<close> and \<^verbatim>\<open>RecursionError\<close>, and \<^verbatim>\<open>struct.error\<close>.
\<close>

datatype exn_info = CharStrlenRequired | UnexpectedKwargs "(string \<times> pyval) list"

datatype error =
    StructException exn_info
  | KeyError string
  | TypeError
  | IndexError
  | StructError
  | OverflowError
  | RecursionError

text \<open>\<^verbatim>\<open>seq[i]\<close> and \<^verbatim>\<open>seq[i] = v\<close> for a non-negative index.\<close>

definition getitem :: "pyseq \<Rightarrow> nat \<Rightarrow> error + pyval" where
  "getitem s i = (if i < length (items s) then Inr (items s ! i) else Inl IndexError)"

fun setitem :: "pyseq \<Rightarrow> nat \<Rightarrow> pyval \<Rightarrow> error + pyseq" where
  "setitem (PyTuple xs) i v = Inl TypeError"
| "setitem (PyList xs) i v = (if i < length xs then Inr (PyList (xs[i := v])) else Inl IndexError)"

section \<open>Field descriptors\<close>

text \<open>
  The type codes \<^verbatim>\<open>INT8_T = 'b'\<close> ... \<^verbatim>\<open>FLOAT64_T = 'd'\<close> of the module, and the character
  each one contributes to a format string.
\<close>

datatype field_type =
    INT8_T | UINT8_T | INT16_T | UINT16_T | INT32_T | UINT32_T | INT64_T | UINT64_T
  | CHAR_T | FLOAT32_T | FLOAT64_T

fun type_code :: "field_type \<Rightarrow> char" where
  "type_code INT8_T = CHR ''b''"
| "type_code UINT8_T = CHR ''B''"
| "type_code INT16_T = CHR ''h''"
| "type_code UINT16_T = CHR ''H''"
| "type_code INT32_T = CHR ''i''"
| "type_code UINT32_T = CHR ''I''"
| "type_code INT64_T = CHR ''q''"
| "type_code UINT64_T = CHR ''Q''"
| "type_code CHAR_T = CHR ''s''"
| "type_code FLOAT32_T = CHR ''f''"
| "type_code FLOAT64_T = CHR ''d''"

definition BYTE_ORDER_NATIVE :: string where "BYTE_ORDER_NATIVE = ''@''"
definition BYTE_ORDER_NATIVE_STD :: string where "BYTE_ORDER_NATIVE_STD = ''=''"
definition BYTE_ORDER_LITTLE_ENDIAN :: string where "BYTE_ORDER_LITTLE_ENDIAN = ''<''"
definition BYTE_ORDER_BIG_ENDIAN :: string where "BYTE_ORDER_BIG_ENDIAN = ''>''"
definition BYTE_ORDER_NETWORK :: string where "BYTE_ORDER_NETWORK = ''!''"
definition DEFAULT_BYTE_ORDER :: string where "DEFAULT_BYTE_ORDER = BYTE_ORDER_LITTLE_ENDIAN"

definition byte_orders :: "string list" where
  "byte_orders = [BYTE_ORDER_NATIVE, BYTE_ORDER_NATIVE_STD, BYTE_ORDER_LITTLE_ENDIAN,
     BYTE_ORDER_BIG_ENDIAN, BYTE_ORDER_NETWORK]"

text \<open>
  An instance of \<^verbatim>\<open>StructField\<close>. \<^verbatim>\<open>default\<close> is \<^verbatim>\<open>None\<close> when no default is given;
  \<^verbatim>\<open>str_len\<close> is \<^verbatim>\<open>None\<close> or an integer.
\<close>

record StructField =
  field_type :: field_type
  default_value :: pyval
  str_len :: "int option"
  count :: nat
  index :: nat
  name :: string

text \<open>
  \<^verbatim>\<open>StructField.__init__\<close>. The class attribute \<^verbatim>\<open>StructField.count_\<close> is the state: the
  function takes its value and returns the new one. \<^verbatim>\<open>not str_len\<close> holds for \<^verbatim>\<open>None\<close> and
  for \<^verbatim>\<open>0\<close>, and for no other integer. The exception is raised before the counter is read.
\<close>

definition StructField_init ::
  "field_type \<Rightarrow> pyval \<Rightarrow> int option \<Rightarrow> nat \<Rightarrow> (error + StructField) \<times> nat" where
  "StructField_init ft dflt sl counter =
     (if ft = CHAR_T \<and> (sl = None \<or> sl = Some 0)
      then (Inl (StructException CharStrlenRequired), counter)
      else (Inr \<lparr>field_type = ft, default_value = dflt, str_len = sl, count = counter,
                 index = 0, name = ''''\<rparr>, Suc counter))"

text \<open>The field constructors of the module.\<close>

definition int8_t :: "pyval \<Rightarrow> nat \<Rightarrow> (error + StructField) \<times> nat" where
  "int8_t dflt = StructField_init INT8_T dflt None"
definition uint8_t :: "pyval \<Rightarrow> nat \<Rightarrow> (error + StructField) \<times> nat" where
  "uint8_t dflt = StructField_init UINT8_T dflt None"
definition int16_t :: "pyval \<Rightarrow> nat \<Rightarrow> (error + StructField) \<times> nat" where
  "int16_t dflt = StructField_init INT16_T dflt None"
definition uint16_t :: "pyval \<Rightarrow> nat \<Rightarrow> (error + StructField) \<times> nat" where
  "uint16_t dflt = StructField_init UINT16_T dflt None"
definition int32_t :: "pyval \<Rightarrow> nat \<Rightarrow> (error + StructField) \<times> nat" where
  "int32_t dflt = StructField_init INT32_T dflt None"
definition uint32_t :: "pyval \<Rightarrow> nat \<Rightarrow> (error + StructField) \<times> nat" where
  "uint32_t dflt = StructField_init UINT32_T dflt None"
definition int64_t :: "pyval \<Rightarrow> nat \<Rightarrow> (error + StructField) \<times> nat" where
  "int64_t dflt = StructField_init INT64_T dflt None"
definition uint64_t :: "pyval \<Rightarrow> nat \<Rightarrow> (error + StructField) \<times> nat" where
  "uint64_t dflt = StructField_init UINT64_T dflt None"
definition float32_t :: "pyval \<Rightarrow> nat \<Rightarrow> (error + StructField) \<times> nat" where
  "float32_t dflt = StructField_init FLOAT32_T dflt None"
definition float64_t :: "pyval \<Rightarrow> nat \<Rightarrow> (error + StructField) \<times> nat" where
  "float64_t dflt = StructField_init FLOAT64_T dflt None"
definition char_field :: "int option \<Rightarrow> pyval \<Rightarrow> nat \<Rightarrow> (error + StructField) \<times> nat" where
  "char_field strlen dflt = StructField_init CHAR_T dflt strlen"

section \<open>The \<^verbatim>\<open>struct\<close> module\<close>

text \<open>
  \<^verbatim>\<open>struct.Struct\<close>, \<^verbatim>\<open>struct.pack\<close> and \<^verbatim>\<open>struct.unpack\<close> belong to the Python standard
  library, not to the module. They are modelled here after the library's behaviour, for the
  formats that \<^verbatim>\<open>MetaStruct\<close> builds: one of the five byte-order characters, then items of the
  eleven format characters that the field constructors produce. A character that is none of
  these (the \<^verbatim>\<open>-\<close> of a negative length, the letters of \<^verbatim>\<open>None\<close>) makes the format an error,
  as in the library; the library's further format characters (the pad byte \<^verbatim>\<open>x\<close>, \<^verbatim>\<open>c\<close>,
  \<^verbatim>\<open>?\<close>, \<^verbatim>\<open>l\<close>, \<^verbatim>\<open>n\<close>, \<^verbatim>\<open>e\<close>, \<^verbatim>\<open>p\<close>, \<^verbatim>\<open>P\<close> and their variants), which no field constructor
  produces, are outside the model, which treats them as errors too. What depends on the machine
  (the native byte order, the native alignment of each type, the largest \<^verbatim>\<open>Py_ssize_t\<close>) is a
  parameter. The sizes of the types are those of the standard modes, which are also the native
  sizes of these types on the machines Python runs on.
\<close>

record platform =
  little_endian :: bool
  native_align :: "field_type \<Rightarrow> nat"
  ssize_max :: nat

text \<open>The size in bytes of one element of each type (\<^verbatim>\<open>s\<close> counts single bytes).\<close>

fun itemsize :: "field_type \<Rightarrow> nat" where
  "itemsize INT8_T = 1"
| "itemsize UINT8_T = 1"
| "itemsize INT16_T = 2"
| "itemsize UINT16_T = 2"
| "itemsize INT32_T = 4"
| "itemsize UINT32_T = 4"
| "itemsize INT64_T = 8"
| "itemsize UINT64_T = 8"
| "itemsize CHAR_T = 1"
| "itemsize FLOAT32_T = 4"
| "itemsize FLOAT64_T = 8"

text \<open>A 64-bit little-endian machine where every type is aligned to its size.\<close>

definition x86_64 :: platform where
  "x86_64 = \<lparr>little_endian = True, native_align = itemsize, ssize_max = 2 ^ 63 - 1\<rparr>"

subsection \<open>\<^verbatim>\<open>str\<close> of an integer\<close>

definition digit_char :: "nat \<Rightarrow> char" where
  "digit_char d = ''0123456789'' ! d"

fun str_nat :: "nat \<Rightarrow> string" where
  "str_nat n = (if n < 10 then [digit_char n] else str_nat (n div 10) @ [digit_char (n mod 10)])"

declare str_nat.simps [simp del]

definition str_int :: "int \<Rightarrow> string" where
  "str_int i = (if i < 0 then CHR ''-'' # str_nat (nat (- i)) else str_nat (nat i))"

definition str_opt :: "int option \<Rightarrow> string" where
  "str_opt x = (case x of None \<Rightarrow> ''None'' | Some i \<Rightarrow> str_int i)"

subsection \<open>Format strings\<close>

text \<open>
  The first character of a format selects byte order, sizes and alignment: \<^verbatim>\<open><\<close> little-endian,
  \<^verbatim>\<open>></\<close> and \<^verbatim>\<open>!\<close> big-endian, \<^verbatim>\<open>=\<close> native byte order (all three with standard sizes and no
  alignment), \<^verbatim>\<open>@\<close> native byte order with native alignment, which is also the mode of a format
  that starts with none of them.
\<close>

datatype table = Native | NativeStd | LittleEndian | BigEndian

fun whichtable :: "string \<Rightarrow> table \<times> string" where
  "whichtable [] = (Native, [])"
| "whichtable (c # s) =
     (if c = CHR ''<'' then (LittleEndian, s)
      else if c = CHR ''>'' \<or> c = CHR ''!'' then (BigEndian, s)
      else if c = CHR ''='' then (NativeStd, s)
      else if c = CHR ''@'' then (Native, s)
      else (Native, c # s))"

definition isspace :: "char \<Rightarrow> bool" where
  "isspace c = (c \<in> set [CHR '' '', CHR 0x09, CHR 0x0A, CHR 0x0B, CHR 0x0C, CHR 0x0D])"

definition isdigit :: "char \<Rightarrow> bool" where
  "isdigit c = ((48::nat) \<le> of_char c \<and> of_char c \<le> (57::nat))"

definition digit_val :: "char \<Rightarrow> nat" where
  "digit_val c = of_char c - 48"

definition getentry :: "char \<Rightarrow> field_type option" where
  "getentry c = map_of [(CHR ''b'', INT8_T), (CHR ''B'', UINT8_T), (CHR ''h'', INT16_T),
     (CHR ''H'', UINT16_T), (CHR ''i'', INT32_T), (CHR ''I'', UINT32_T), (CHR ''q'', INT64_T),
     (CHR ''Q'', UINT64_T), (CHR ''s'', CHAR_T), (CHR ''f'', FLOAT32_T), (CHR ''d'', FLOAT64_T)] c"

text \<open>
  A format is a sequence of items: an optional decimal repeat count and a format character.
  White space between items is skipped; a count with no character after it and a character that
  is no format character are errors. The first argument is the count read so far.
\<close>

fun parse_items :: "nat option \<Rightarrow> string \<Rightarrow> error + (nat \<times> field_type) list" where
  "parse_items None [] = Inr []"
| "parse_items (Some n) [] = Inl StructError"
| "parse_items num (c # s) =
     (if num = None \<and> isspace c then parse_items None s
      else if isdigit c
        then parse_items (Some ((case num of None \<Rightarrow> 0 | Some n \<Rightarrow> n) * 10 + digit_val c)) s
      else (case getentry c of
              None \<Rightarrow> Inl StructError
            | Some e \<Rightarrow>
               (case parse_items None s of
                  Inl err \<Rightarrow> Inl err
                | Inr its \<Rightarrow> Inr ((case num of None \<Rightarrow> 1 | Some n \<Rightarrow> n, e) # its))))"

text \<open>
  The layout: one slot (offset, type, size in bytes) for each value. An item \<^verbatim>\<open>Ns\<close> is one value
  of \<^verbatim>\<open>N\<close> bytes; an item \<^verbatim>\<open>Nc\<close> of another type is \<^verbatim>\<open>N\<close> values. In the native mode an item
  starts at the next multiple of its type's alignment.
\<close>

type_synonym slot = "nat \<times> field_type \<times> nat"

definition align :: "platform \<Rightarrow> table \<Rightarrow> field_type \<Rightarrow> nat \<Rightarrow> nat" where
  "align p t ft sz =
     (let a = (if t = Native then native_align p ft else 0)
      in if a \<noteq> 0 \<and> 0 < sz then sz + ((a - 1) - (sz - 1) mod a) else sz)"

fun layout :: "platform \<Rightarrow> table \<Rightarrow> nat \<Rightarrow> (nat \<times> field_type) list \<Rightarrow> slot list \<times> nat" where
  "layout p t sz [] = ([], sz)"
| "layout p t sz ((num, ft) # its) =
     (let off = align p t ft sz in
      if ft = CHAR_T
      then (let (ss, total) = layout p t (off + num) its in ((off, ft, num) # ss, total))
      else (let (ss, total) = layout p t (off + num * itemsize ft) its
            in (map (\<lambda>j. (off + j * itemsize ft, ft, itemsize ft)) [0..<num] @ ss, total)))"

record py_struct =
  s_format :: string
  s_table :: table
  s_slots :: "slot list"
  s_size :: nat

text \<open>\<^verbatim>\<open>struct.Struct(fmt)\<close>: \<^verbatim>\<open>struct.error\<close> for a bad format or a size beyond \<^verbatim>\<open>Py_ssize_t\<close>.\<close>

definition py_struct_new :: "platform \<Rightarrow> string \<Rightarrow> error + py_struct" where
  "py_struct_new p fmt =
     (let (t, s) = whichtable fmt in
      case parse_items None s of
        Inl e \<Rightarrow> Inl e
      | Inr its \<Rightarrow>
         (let (ss, total) = layout p t 0 its in
          if ssize_max p < total then Inl StructError
          else Inr \<lparr>s_format = fmt, s_table = t, s_slots = ss, s_size = total\<rparr>))"

subsection \<open>Integers\<close>

fun signed_type :: "field_type \<Rightarrow> bool" where
  "signed_type INT8_T = True"
| "signed_type INT16_T = True"
| "signed_type INT32_T = True"
| "signed_type INT64_T = True"
| "signed_type ft = False"

definition int_min :: "field_type \<Rightarrow> int" where
  "int_min ft = (if signed_type ft then - (2 ^ (8 * itemsize ft - 1)) else 0)"

definition int_max :: "field_type \<Rightarrow> int" where
  "int_max ft = (if signed_type ft then 2 ^ (8 * itemsize ft - 1) - 1 else 2 ^ (8 * itemsize ft) - 1)"

fun int_bytes_le :: "nat \<Rightarrow> int \<Rightarrow> byte list" where
  "int_bytes_le 0 v = []"
| "int_bytes_le (Suc n) v = word_of_int v # int_bytes_le n (v div 256)"

fun le_bytes_int :: "byte list \<Rightarrow> int" where
  "le_bytes_int [] = 0"
| "le_bytes_int (b # bs) = uint b + 256 * le_bytes_int bs"

definition is_le :: "platform \<Rightarrow> table \<Rightarrow> bool" where
  "is_le p t = (t = LittleEndian \<or> (t \<noteq> BigEndian \<and> little_endian p))"

definition order_bytes :: "bool \<Rightarrow> byte list \<Rightarrow> byte list" where
  "order_bytes le bs = (if le then bs else rev bs)"

definition unpack_int :: "field_type \<Rightarrow> byte list \<Rightarrow> int" where
  "unpack_int ft bs =
     (let u = le_bytes_int bs
      in if signed_type ft \<and> 2 ^ (8 * length bs - 1) \<le> u then u - 2 ^ (8 * length bs) else u)"

subsection \<open>Floats\<close>

text \<open>
  A Python float is a binary64 number; \<^verbatim>\<open>d\<close> stores its eight bytes. \<^verbatim>\<open>f\<close> stores the nearest
  binary32 number (round to nearest, ties to even); reading \<^verbatim>\<open>f\<close> widens the binary32 number
  exactly. An integer argument is converted to a float first. All conversions are written on the
  bit patterns: sign, biased exponent and fraction. A NaN stays a NaN, made quiet, with the
  leading bits of its payload. \<open>float_of_double\<close> is \<^verbatim>\<open>None\<close> when a finite value rounds to
  infinity: the standard modes then raise, the native mode, a C cast (\<open>float_cast\<close>), stores the
  infinity.
\<close>

definition rne :: "nat \<Rightarrow> nat \<Rightarrow> nat" where
  "rne m k =
     (let q = m div 2 ^ k; r = m mod 2 ^ k
      in if 2 ^ k < 2 * r \<or> (2 * r = 2 ^ k \<and> odd q) then q + 1 else q)"

fun bit_length :: "nat \<Rightarrow> nat" where
  "bit_length n = (if n = 0 then 0 else Suc (bit_length (n div 2)))"

declare bit_length.simps [simp del]

definition float_of_double :: "64 word \<Rightarrow> 32 word option" where
  "float_of_double d =
     (let b = unat d; s = b div 2 ^ 63; e = (b div 2 ^ 52) mod 2 ^ 11; m = b mod 2 ^ 52 in
      if e = 2047
        then Some (of_nat (s * 2 ^ 31 + 255 * 2 ^ 23
                     + (if m = 0 then 0 else 2 ^ 22 + (m div 2 ^ 29) mod 2 ^ 22)))
      else if e = 0 then Some (of_nat (s * 2 ^ 31))
      else (let mag = (if 897 \<le> e then (e - 897) * 2 ^ 23 + rne (2 ^ 52 + m) 29
                       else rne (2 ^ 52 + m) (926 - e))
            in if 255 * 2 ^ 23 \<le> mag then None else Some (of_nat (s * 2 ^ 31 + mag))))"

definition float_cast :: "64 word \<Rightarrow> 32 word" where
  "float_cast d =
     (case float_of_double d of
        Some f \<Rightarrow> f
      | None \<Rightarrow> of_nat ((unat d div 2 ^ 63) * 2 ^ 31 + 255 * 2 ^ 23))"

definition double_of_float :: "32 word \<Rightarrow> 64 word" where
  "double_of_float f =
     (let b = unat f; s = b div 2 ^ 31; e = (b div 2 ^ 23) mod 2 ^ 8; m = b mod 2 ^ 23 in
      of_nat (s * 2 ^ 63 +
        (if e = 255 then 2047 * 2 ^ 52 + (if m = 0 then 0 else 2 ^ 51 + (m mod 2 ^ 22) * 2 ^ 29)
         else if e = 0
           then (if m = 0 then 0
                 else (let l = bit_length m - 1 in (l + 874) * 2 ^ 52 + (m * 2 ^ (52 - l)) mod 2 ^ 52))
         else (e + 896) * 2 ^ 52 + m * 2 ^ 29)))"

definition double_of_int :: "int \<Rightarrow> 64 word option" where
  "double_of_int i =
     (if i = 0 then Some 0
      else (let a = nat \<bar>i\<bar>; l = bit_length a - 1;
                mag = (l + 1022) * 2 ^ 52 + (if l \<le> 52 then a * 2 ^ (52 - l) else rne a (l - 52))
            in if 2047 * 2 ^ 52 \<le> mag then None
               else Some (of_nat ((if i < 0 then 2 ^ 63 else 0) + mag))))"

text \<open>\<^verbatim>\<open>PyFloat_AsDouble\<close>: a float as it is, an integer converted, nothing else.\<close>

fun as_double :: "pyval \<Rightarrow> 64 word option" where
  "as_double (PyFloat d) = Some d"
| "as_double (PyInt i) = double_of_int i"
| "as_double v = None"

subsection \<open>Packing and unpacking\<close>

text \<open>
  One value into the bytes of its slot; \<open>native\<close> tells the native mode (\<^verbatim>\<open>@\<close>) from the
  standard ones, \<open>le\<close> the byte order. \<^verbatim>\<open>s\<close> takes a \<^verbatim>\<open>bytes\<close> object, cut or padded with
  zero bytes to the slot's size; the integer types take an integer in range; a wrong type or an
  integer out of range raises \<^verbatim>\<open>struct.error\<close>. A value too large for \<^verbatim>\<open>f\<close> is stored as
  an infinity in the native mode; in the standard modes it raises \<^verbatim>\<open>OverflowError\<close>, which
  \<^verbatim>\<open>pack\<close> turns into \<^verbatim>\<open>struct.error\<close> when the argument is an integer.
\<close>

definition pack_value :: "bool \<Rightarrow> bool \<Rightarrow> field_type \<Rightarrow> nat \<Rightarrow> pyval \<Rightarrow> error + byte list" where
  "pack_value native le ft sz v =
     (if ft = CHAR_T then
        (case v of PyBytes b \<Rightarrow> Inr (take sz b @ replicate (sz - length b) 0)
                 | _ \<Rightarrow> Inl StructError)
      else if ft = FLOAT64_T then
        (case as_double v of None \<Rightarrow> Inl StructError
                           | Some d \<Rightarrow> Inr (order_bytes le (int_bytes_le 8 (uint d))))
      else if ft = FLOAT32_T then
        (case as_double v of None \<Rightarrow> Inl StructError
           | Some d \<Rightarrow>
              if native then Inr (order_bytes le (int_bytes_le 4 (uint (float_cast d))))
              else (case float_of_double d of
                      None \<Rightarrow> (case v of PyInt i \<Rightarrow> Inl StructError | _ \<Rightarrow> Inl OverflowError)
                    | Some f \<Rightarrow> Inr (order_bytes le (int_bytes_le 4 (uint f)))))
      else
        (case v of
           PyInt i \<Rightarrow>
             if int_min ft \<le> i \<and> i \<le> int_max ft then Inr (order_bytes le (int_bytes_le sz i))
             else Inl StructError
         | _ \<Rightarrow> Inl StructError))"

definition unpack_value :: "bool \<Rightarrow> field_type \<Rightarrow> byte list \<Rightarrow> pyval" where
  "unpack_value le ft bs =
     (if ft = CHAR_T then PyBytes bs
      else if ft = FLOAT64_T then PyFloat (word_of_int (le_bytes_int (order_bytes le bs)))
      else if ft = FLOAT32_T
        then PyFloat (double_of_float (word_of_int (le_bytes_int (order_bytes le bs))))
      else PyInt (unpack_int ft (order_bytes le bs)))"

text \<open>
  The buffer has the struct's size and is filled from left to right: \<^verbatim>\<open>pos\<close> is the number of
  bytes written so far, and the gap before a slot and after the last one is zero bytes. The first
  value that cannot be packed raises.
\<close>

fun pack_slots ::
  "bool \<Rightarrow> bool \<Rightarrow> nat \<Rightarrow> nat \<Rightarrow> slot list \<Rightarrow> pyval list \<Rightarrow> error + byte list" where
  "pack_slots native le tot pos ((off, ft, sz) # ss) (v # vs) =
     (case pack_value native le ft sz v of
        Inl e \<Rightarrow> Inl e
      | Inr bs \<Rightarrow>
         (case pack_slots native le tot (off + sz) ss vs of
            Inl e \<Rightarrow> Inl e
          | Inr r \<Rightarrow> Inr (replicate (off - pos) 0 @ bs @ r)))"
| "pack_slots native le tot pos ss vs = Inr (replicate (tot - pos) 0)"

text \<open>\<^verbatim>\<open>Struct.pack(*args)\<close>: the number of arguments is checked first.\<close>

definition py_struct_pack :: "platform \<Rightarrow> py_struct \<Rightarrow> pyval list \<Rightarrow> error + byte list" where
  "py_struct_pack p s args =
     (if length args \<noteq> length (s_slots s) then Inl StructError
      else pack_slots (s_table s = Native) (is_le p (s_table s)) (s_size s) 0 (s_slots s) args)"

text \<open>\<^verbatim>\<open>Struct.unpack(buffer)\<close>: the buffer has exactly the struct's size; the result is a tuple.\<close>

definition py_struct_unpack :: "platform \<Rightarrow> py_struct \<Rightarrow> byte list \<Rightarrow> error + pyval list" where
  "py_struct_unpack p s bs =
     (if length bs \<noteq> s_size s then Inl StructError
      else Inr (map (\<lambda>(off, ft, sz). unpack_value (is_le p (s_table s)) ft (take sz (drop off bs)))
                  (s_slots s)))"


definition struct_unpack :: "platform \<Rightarrow> string \<Rightarrow> byte list \<Rightarrow> error + pyval list" where
  "struct_unpack p fmt bs =
     (case py_struct_new p fmt of Inl e \<Rightarrow> Inl e | Inr s \<Rightarrow> py_struct_unpack p s bs)"

section \<open>Record types: \<^verbatim>\<open>MetaStruct\<close>\<close>

text \<open>
  A class \<^verbatim>\<open>__dict__\<close> is an association list in insertion order. An attribute is a field
  descriptor, a string (such as \<^verbatim>\<open>BYTE_ORDER\<close>) or any other object that is no descriptor (a
  method of \<^verbatim>\<open>Struct\<close>, a number, a dictionary).
\<close>

datatype attr_value = AField StructField | AStr string | AOther

type_synonym class_dict = "(string \<times> attr_value) list"

text \<open>
  \<^verbatim>\<open>super().__new__\<close> creates the class and calls \<^verbatim>\<open>__set_name__\<close> for every attribute of the
  class body that is a descriptor, in the order of the body; the call stores the attribute's
  name in the descriptor object. A descriptor object is known by its count, which
  \<^verbatim>\<open>StructField.__init__\<close> gives to no other object. So an object that the body binds to several
  names (\<^verbatim>\<open>a = b = uint8_t()\<close>) keeps the last of them, and every dictionary that holds the
  object, the body's own or a base's (\<^verbatim>\<open>c = Base.a\<close>), shows that name afterwards: \<open>bound_name\<close>
  is the object after the calls, \<open>set_names attrs d\<close> the dictionary \<open>d\<close> after them, and
  \<open>class_mro attrs bases\<close> the dictionaries along the MRO of the new class, its own first.
\<close>

definition bound_name :: "class_dict \<Rightarrow> StructField \<Rightarrow> StructField" where
  "bound_name attrs f =
     (case filter (\<lambda>(a, v). case v of AField g \<Rightarrow> count g = count f | _ \<Rightarrow> False) attrs of
        [] \<Rightarrow> f
      | b # bs \<Rightarrow> f\<lparr>name := fst (last (b # bs))\<rparr>)"

definition set_names :: "class_dict \<Rightarrow> class_dict \<Rightarrow> class_dict" where
  "set_names attrs d =
     map (\<lambda>(a, v). (a, case v of AField f \<Rightarrow> AField (bound_name attrs f) | _ \<Rightarrow> v)) d"

definition class_mro :: "class_dict \<Rightarrow> class_dict list \<Rightarrow> class_dict list" where
  "class_mro attrs bases = map (set_names attrs) (attrs # bases)"

text \<open>
  The walk through the MRO, most basic class first. \<^verbatim>\<open>struct_fields[attr] = value\<close> on a Python
  dictionary replaces the value of a key that is present and keeps the key's place, and puts a
  new key last: \<^const>\<open>AList.update\<close>.
\<close>

fun collect_fields ::
  "class_dict \<Rightarrow> (string \<times> StructField) list \<Rightarrow> (string \<times> StructField) list" where
  "collect_fields [] sf = sf"
| "collect_fields ((a, v) # rest) sf =
     collect_fields rest (case v of AField f \<Rightarrow> AList.update a f sf | _ \<Rightarrow> sf)"

definition struct_fields :: "class_dict list \<Rightarrow> (string \<times> StructField) list" where
  "struct_fields mro = foldl (\<lambda>sf base. collect_fields base sf) [] (rev mro)"

text \<open>\<^verbatim>\<open>sorted(struct_fields.values(), key=lambda f: f.count)\<close>, a stable sort.\<close>

definition field_list :: "class_dict list \<Rightarrow> StructField list" where
  "field_list mro = sort_key count (map snd (struct_fields mro))"

text \<open>
  The loop over \<^verbatim>\<open>enumerate(field_list)\<close>; its state is the format, the name-index map and the
  list of defaults. (The loop also stores the index in \<^verbatim>\<open>field.index\<close>, which nothing reads.)
\<close>

fun compile_fields ::
  "nat \<Rightarrow> StructField list \<Rightarrow> string \<times> (string \<times> nat) list \<times> pyval list \<Rightarrow>
   string \<times> (string \<times> nat) list \<times> pyval list" where
  "compile_fields i [] st = st"
| "compile_fields i (f # fs) (fmt, nim, dv) =
     compile_fields (Suc i) fs
       ((fmt @ (if field_type f = CHAR_T then str_opt (str_len f) else [])) @ [type_code (field_type f)],
        AList.update (name f) i nim,
        dv @ [default_value f])"

record struct_class =
  BASE_STRUCT_FORMAT :: string
  STRUCT_FORMAT :: string
  NAME_INDEX_MAP :: "(string \<times> nat) list"
  DEFAULT_VALUES :: addr
  PACKER :: py_struct
  values_is_field :: bool

text \<open>\<^verbatim>\<open>getattr(new_class, a, default)\<close>: the first class of the MRO that has the attribute.\<close>

fun getattr_mro :: "class_dict list \<Rightarrow> string \<Rightarrow> attr_value option" where
  "getattr_mro [] a = None"
| "getattr_mro (d # ds) a = (case map_of d a of Some v \<Rightarrow> Some v | None \<Rightarrow> getattr_mro ds a)"

text \<open>
  \<^verbatim>\<open>MetaStruct.__new__\<close> for a class body \<^verbatim>\<open>attrs\<close> whose bases contribute the rest of the MRO
  (\<^verbatim>\<open>bases\<close>: the dictionaries of the classes after the new one, in MRO order). The list of
  defaults is a new list object. A \<^verbatim>\<open>BYTE_ORDER\<close> that is no string cannot be concatenated
  with the format (\<^verbatim>\<open>TypeError\<close>); a format that \<^verbatim>\<open>struct.Struct\<close> rejects raises
  \<^verbatim>\<open>struct.error\<close>. Either way no class is created.

  The class record holds the class variables that the metaclass sets. It also records what the
  methods of an instance need to know of the class's other attributes: whether the attribute
  \<^verbatim>\<open>values\<close>, looked up along the MRO, is a \<^verbatim>\<open>StructField\<close>. A \<^verbatim>\<open>StructField\<close> has \<^verbatim>\<open>__get__\<close> and
  \<^verbatim>\<open>__set__\<close>, so as a class attribute it takes precedence over the instance's own attribute
  of that name.
\<close>

definition MetaStruct_new ::
  "platform \<Rightarrow> class_dict \<Rightarrow> class_dict list \<Rightarrow> heap \<Rightarrow> (error + struct_class) \<times> heap" where
  "MetaStruct_new p attrs bases h =
     (let mro = class_mro attrs bases;
          (fmt, nim, dv) = compile_fields 0 (field_list mro) ([], [], []);
          (a, h') = alloc h (PyList dv)
      in case (case getattr_mro mro ''BYTE_ORDER'' of
                 None \<Rightarrow> Inr DEFAULT_BYTE_ORDER
               | Some (AStr s) \<Rightarrow> Inr s
               | Some _ \<Rightarrow> Inl TypeError) of
           Inl e \<Rightarrow> (Inl e, h')
         | Inr bo \<Rightarrow>
            (case py_struct_new p (bo @ fmt) of
               Inl e \<Rightarrow> (Inl e, h')
             | Inr packer \<Rightarrow>
                (Inr \<lparr>BASE_STRUCT_FORMAT = fmt, STRUCT_FORMAT = bo @ fmt, NAME_INDEX_MAP = nim,
                       DEFAULT_VALUES = a, PACKER = packer,
                       values_is_field = (case getattr_mro mro ''values'' of
                                            Some (AField f) \<Rightarrow> True | _ \<Rightarrow> False)\<rparr>, h')))"

section \<open>Records: \<^verbatim>\<open>Struct\<close>\<close>

text \<open>
  An instance that \<^verbatim>\<open>__init__\<close> has initialised: its class and the object that its attribute
  \<^verbatim>\<open>values\<close> refers to.
\<close>

record struct_obj =
  klass :: struct_class
  self_values :: addr

text \<open>
  The loop of \<^verbatim>\<open>__init__\<close> over \<^verbatim>\<open>_NAME_INDEX_MAP.items()\<close>: a name that is a key of
  \<^verbatim>\<open>kwargs\<close> is popped and its value stored in the list at \<^verbatim>\<open>a\<close>.
\<close>

fun init_kwargs ::
  "(string \<times> nat) list \<Rightarrow> addr \<Rightarrow> (string \<times> pyval) list \<Rightarrow> heap \<Rightarrow>
   (error + (string \<times> pyval) list) \<times> heap" where
  "init_kwargs [] a kw h = (Inr kw, h)"
| "init_kwargs ((nm, idx) # rest) a kw h =
     (case map_of kw nm of
        None \<Rightarrow> init_kwargs rest a kw h
      | Some v \<Rightarrow>
         (case setitem (h ! a) idx v of
            Inl e \<Rightarrow> (Inl e, h)
          | Inr s \<Rightarrow> init_kwargs rest a (AList.delete nm kw) (h[a := s])))"

text \<open>
  \<^verbatim>\<open>Struct.__init__(self, **kwargs)\<close>. A keyword argument named \<^verbatim>\<open>self\<close> collides with the
  first parameter: the call raises \<^verbatim>\<open>TypeError\<close> before the body runs. The body copies the
  class's list of defaults into a new list object and assigns it to \<^verbatim>\<open>self.values\<close>. When the
  class attribute \<^verbatim>\<open>values\<close> is a \<^verbatim>\<open>StructField\<close>, the assignment calls its \<^verbatim>\<open>__set__\<close>, which
  calls \<^verbatim>\<open>set_field_value\<close>, which reads \<^verbatim>\<open>self.values\<close> through \<^verbatim>\<open>__get__\<close> and
  \<^verbatim>\<open>get_field_value\<close>, which reads \<^verbatim>\<open>self.values\<close> again, without end: \<^verbatim>\<open>RecursionError\<close>, and
  no instance is initialised. Otherwise \<^verbatim>\<open>values\<close> is a plain attribute of the instance, as it
  is for the other methods below, which work on an initialised instance.
\<close>

definition Struct_init ::
  "struct_class \<Rightarrow> (string \<times> pyval) list \<Rightarrow> heap \<Rightarrow> (error + struct_obj) \<times> heap" where
  "Struct_init cls kwargs h =
     (if ''self'' \<in> set (map fst kwargs) then (Inl TypeError, h)
      else
       (let (a, h1) = alloc h (PyList (items (h ! DEFAULT_VALUES cls)));
            self = \<lparr>klass = cls, self_values = a\<rparr>
        in if values_is_field cls then (Inl RecursionError, h1)
           else if kwargs \<noteq> [] then
             (case init_kwargs (NAME_INDEX_MAP cls) a kwargs h1 of
                (Inl e, h2) \<Rightarrow> (Inl e, h2)
              | (Inr kw, h2) \<Rightarrow>
                 if kw \<noteq> [] then (Inl (StructException (UnexpectedKwargs kw)), h2)
                 else (Inr self, h2))
           else (Inr self, h1)))"

text \<open>\<^verbatim>\<open>self._NAME_INDEX_MAP[name]\<close> raises \<^verbatim>\<open>KeyError\<close> for a name that is no key.\<close>

definition get_field_value :: "struct_obj \<Rightarrow> string \<Rightarrow> heap \<Rightarrow> error + pyval" where
  "get_field_value self nm h =
     (case map_of (NAME_INDEX_MAP (klass self)) nm of
        None \<Rightarrow> Inl (KeyError nm)
      | Some idx \<Rightarrow> getitem (h ! self_values self) idx)"

definition set_field_value ::
  "struct_obj \<Rightarrow> string \<Rightarrow> pyval \<Rightarrow> heap \<Rightarrow> (error + unit) \<times> heap" where
  "set_field_value self nm v h =
     (case map_of (NAME_INDEX_MAP (klass self)) nm of
        None \<Rightarrow> (Inl (KeyError nm), h)
      | Some idx \<Rightarrow>
         (case setitem (h ! self_values self) idx v of
            Inl e \<Rightarrow> (Inl e, h)
          | Inr s \<Rightarrow> (Inr (), h[self_values self := s])))"

definition pack :: "platform \<Rightarrow> struct_obj \<Rightarrow> heap \<Rightarrow> error + byte list" where
  "pack p self h = py_struct_pack p (PACKER (klass self)) (items (h ! self_values self))"


text \<open>
  \<^verbatim>\<open>unpack\<close> binds \<^verbatim>\<open>self.values\<close> to the tuple that \<^verbatim>\<open>struct\<close> returns, a new object; when
  \<^verbatim>\<open>struct\<close> raises, nothing has been assigned.
\<close>

definition unpack ::
  "platform \<Rightarrow> struct_obj \<Rightarrow> byte list \<Rightarrow> heap \<Rightarrow> (error + unit) \<times> struct_obj \<times> heap" where
  "unpack p self bs h =
     (case py_struct_unpack p (PACKER (klass self)) bs of
        Inl e \<Rightarrow> (Inl e, self, h)
      | Inr vs \<Rightarrow> (let (a, h') = alloc h (PyTuple vs) in (Inr (), self\<lparr>self_values := a\<rparr>, h')))"

definition unpack_endian ::
  "platform \<Rightarrow> struct_obj \<Rightarrow> byte list \<Rightarrow> string \<Rightarrow> heap \<Rightarrow>
   (error + unit) \<times> struct_obj \<times> heap" where
  "unpack_endian p self bs byte_order h =
     (case struct_unpack p (byte_order @ BASE_STRUCT_FORMAT (klass self)) bs of
        Inl e \<Rightarrow> (Inl e, self, h)
      | Inr vs \<Rightarrow> (let (a, h') = alloc h (PyTuple vs) in (Inr (), self\<lparr>self_values := a\<rparr>, h')))"

text \<open>
  \<^verbatim>\<open>__len__\<close>, the size of the record in bytes, and \<^verbatim>\<open>sizeof\<close>, which returns what
  \<^verbatim>\<open>self.__len__()\<close> returns (in a class that does not redefine \<^verbatim>\<open>__len__\<close>, this method).
\<close>

definition Struct_len :: "struct_obj \<Rightarrow> nat" where
  "Struct_len self = s_size (PACKER (klass self))"

definition sizeof :: "struct_obj \<Rightarrow> nat" where
  "sizeof self = Struct_len self"

text \<open>
  \<^verbatim>\<open>FileHelper\<close> reads a file into \<^verbatim>\<open>unpack\<close> and writes the result of \<^verbatim>\<open>pack\<close> to a file; it
  is left out.
\<close>

section \<open>Class statements\<close>

text \<open>
  The body of a class statement whose lines are \<^verbatim>\<open>name = constructor(...)\<close>: each line
  constructs a descriptor (advancing \<^verbatim>\<open>StructField.count_\<close>) and binds it in the class
  namespace; an exception ends the statement.
\<close>

fun class_body ::
  "(string \<times> (nat \<Rightarrow> (error + StructField) \<times> nat)) list \<Rightarrow> class_dict \<Rightarrow> nat \<Rightarrow>
   (error + class_dict) \<times> nat" where
  "class_body [] d c = (Inr d, c)"
| "class_body ((nm, ctor) # rest) d c =
     (case ctor c of
        (Inl e, c') \<Rightarrow> (Inl e, c')
      | (Inr f, c') \<Rightarrow> class_body rest (AList.update nm (AField f) d) c')"

text \<open>
  The dictionary of the base class \<^verbatim>\<open>Struct\<close> (its byte order, the private class variables,
  its methods) and the rest of the MRO of a direct subclass: \<^verbatim>\<open>Struct\<close>, then \<^verbatim>\<open>object\<close>, which
  has no attribute of interest.
\<close>

definition Struct_dict :: class_dict where
  "Struct_dict =
     [(''BYTE_ORDER'', AStr DEFAULT_BYTE_ORDER), (''_BASE_STRUCT_FORMAT'', AStr []),
      (''_STRUCT_FORMAT'', AStr []), (''_NAME_INDEX_MAP'', AOther), (''_DEFAULT_VALUES'', AOther),
      (''_PACKER'', AOther), (''__init__'', AOther), (''get_field_value'', AOther),
      (''set_field_value'', AOther), (''pack'', AOther), (''pack_endian'', AOther),
      (''unpack'', AOther), (''unpack_endian'', AOther), (''__len__'', AOther),
      (''sizeof'', AOther)]"

definition Struct_mro :: "class_dict list" where
  "Struct_mro = [Struct_dict, []]"

section \<open>Well-formed classes\<close>

text \<open>
  What \<^verbatim>\<open>MetaStruct.__new__\<close> establishes for a class in a store: the list of defaults exists,
  the names and the indices of the name-index map are distinct, and every index is a position
  of the list of defaults.
\<close>

definition class_ok :: "struct_class \<Rightarrow> heap \<Rightarrow> bool" where
  "class_ok cls h \<longleftrightarrow>
     DEFAULT_VALUES cls < length h \<and>
     distinct (map fst (NAME_INDEX_MAP cls)) \<and>
     distinct (map snd (NAME_INDEX_MAP cls)) \<and>
     list_all (\<lambda>i. i < length (items (h ! DEFAULT_VALUES cls))) (map snd (NAME_INDEX_MAP cls))"

section \<open>Record types used as examples\<close>

text \<open>
  The record type of the concrete scenario: \<^verbatim>\<open>id = uint32_t(0)\<close>, \<^verbatim>\<open>flag = uint8_t(1)\<close>,
  \<^verbatim>\<open>tag = char(4, b"none")\<close>, with the default (little-endian) byte order. \<open>scenario_attrs c\<close> is
  the namespace its class body produces when \<^verbatim>\<open>StructField.count_\<close> is \<open>c\<close>, \<open>scenario_cls a\<close>
  the class \<^verbatim>\<open>MetaStruct.__new__\<close> compiles from it when the list of defaults is stored at
  \<open>a\<close> (lemmas \<open>scenario_body_eval\<close> and \<open>scenario_class_eval\<close> below).
\<close>

definition scenario_body :: "(string \<times> (nat \<Rightarrow> (error + StructField) \<times> nat)) list" where
  "scenario_body = [(''id'', uint32_t (PyInt 0)), (''flag'', uint8_t (PyInt 1)),
        (''tag'', char_field (Some 4) (PyBytes [110, 111, 110, 101]))]"

definition scenario_attrs :: "nat \<Rightarrow> class_dict" where
  "scenario_attrs c =
     [(''id'', AField \<lparr>field_type = UINT32_T, default_value = PyInt 0, str_len = None, count = c, index = 0, name = []\<rparr>),
      (''flag'', AField \<lparr>field_type = UINT8_T, default_value = PyInt 1, str_len = None, count = Suc c, index = 0, name = []\<rparr>),
      (''tag'', AField \<lparr>field_type = CHAR_T, default_value = PyBytes [110, 111, 110, 101], str_len = Some 4, count = Suc (Suc c), index = 0, name = []\<rparr>)]"

definition scenario_cls :: "addr \<Rightarrow> struct_class" where
  "scenario_cls a = \<lparr>BASE_STRUCT_FORMAT = ''IB4s'', STRUCT_FORMAT = ''<IB4s'',
         NAME_INDEX_MAP = [(''id'', 0), (''flag'', 1), (''tag'', 2)],
         DEFAULT_VALUES = a,
         PACKER = \<lparr>s_format = ''<IB4s'', s_table = LittleEndian,
              s_slots = [(0, UINT32_T, 4), (4, UINT8_T, 1), (5, CHAR_T, 4)],
              s_size = 9\<rparr>,
         values_is_field = False\<rparr>"

definition scenario_defaults :: pyseq where
  "scenario_defaults = PyList [PyInt 0, PyInt 1, PyBytes [110, 111, 110, 101]]"

text \<open>
  Two more record types. The first has the class body \<^verbatim>\<open>BYTE_ORDER = bo\<close>, \<^verbatim>\<open>a = uint8_t()\<close>,
  \<^verbatim>\<open>b = uint32_t()\<close>; in its compiled class \<open>a\<close> is at offset 0 and \<open>b\<close> at offset \<open>off\<close>. The
  second has the single field \<^verbatim>\<open>x = float32_t()\<close>.
\<close>

definition pair_attrs :: "string \<Rightarrow> nat \<Rightarrow> class_dict" where
  "pair_attrs bo c =
     [(''BYTE_ORDER'', AStr bo),
      (''a'', AField \<lparr>field_type = UINT8_T, default_value = PyNone, str_len = None, count = c, index = 0, name = []\<rparr>),
      (''b'', AField \<lparr>field_type = UINT32_T, default_value = PyNone, str_len = None, count = Suc c, index = 0, name = []\<rparr>)]"

definition pair_cls :: "string \<Rightarrow> nat \<Rightarrow> addr \<Rightarrow> struct_class" where
  "pair_cls bo off a =
     \<lparr>BASE_STRUCT_FORMAT = ''BI'', STRUCT_FORMAT = bo @ ''BI'',
      NAME_INDEX_MAP = [(''a'', 0), (''b'', 1)], DEFAULT_VALUES = a,
      PACKER = \<lparr>s_format = bo @ ''BI'', s_table = fst (whichtable bo),
                 s_slots = [(0, UINT8_T, 1), (off, UINT32_T, 4)],
                 s_size = off + 4\<rparr>,
      values_is_field = False\<rparr>"

definition float_attrs :: "nat \<Rightarrow> class_dict" where
  "float_attrs c =
     [(''x'', AField \<lparr>field_type = FLOAT32_T, default_value = PyNone, str_len = None, count = c, index = 0, name = []\<rparr>)]"

definition float_cls :: "addr \<Rightarrow> struct_class" where
  "float_cls a =
     \<lparr>BASE_STRUCT_FORMAT = ''f'', STRUCT_FORMAT = ''<f'',
      NAME_INDEX_MAP = [(''x'', 0)], DEFAULT_VALUES = a,
      PACKER = \<lparr>s_format = ''<f'', s_table = LittleEndian, s_slots = [(0, FLOAT32_T, 4)], s_size = 4\<rparr>,
      values_is_field = False\<rparr>"

text \<open>
  The same field in the native mode: the class body \<^verbatim>\<open>BYTE_ORDER = '@'\<close>, \<^verbatim>\<open>x = float32_t()\<close>.
\<close>

definition native_float_attrs :: "nat \<Rightarrow> class_dict" where
  "native_float_attrs c =
     [(''BYTE_ORDER'', AStr BYTE_ORDER_NATIVE),
      (''x'', AField \<lparr>field_type = FLOAT32_T, default_value = PyNone, str_len = None, count = c, index = 0, name = []\<rparr>)]"

definition native_float_cls :: "addr \<Rightarrow> struct_class" where
  "native_float_cls a =
     \<lparr>BASE_STRUCT_FORMAT = ''f'', STRUCT_FORMAT = ''@f'',
      NAME_INDEX_MAP = [(''x'', 0)], DEFAULT_VALUES = a,
      PACKER = \<lparr>s_format = ''@f'', s_table = Native, s_slots = [(0, FLOAT32_T, 4)], s_size = 4\<rparr>,
      values_is_field = False\<rparr>"



section \<open>Field lists and their layouts\<close>

text \<open>
  What one iteration of the loop of \<^verbatim>\<open>MetaStruct.__new__\<close> appends to the format for a field, and
  what \<^verbatim>\<open>struct\<close> reads back from it: a descriptor whose type is \<^verbatim>\<open>CHAR\<close> contributes its length
  in decimal and \<^verbatim>\<open>s\<close>, which is a valid item only if the length is a non-negative integer; any
  other descriptor contributes its type code.
\<close>

definition field_fmt :: "StructField \<Rightarrow> string" where
  "field_fmt f = (if field_type f = CHAR_T then str_opt (str_len f) else []) @ [type_code (field_type f)]"

definition fmt_ok :: "StructField \<Rightarrow> bool" where
  "fmt_ok f \<longleftrightarrow> (field_type f = CHAR_T \<longrightarrow> (case str_len f of None \<Rightarrow> False | Some n \<Rightarrow> 0 \<le> n))"

text \<open>
  The declared width of a field in bytes: the fixed length for \<^verbatim>\<open>CHAR\<close>, the size of the type
  otherwise; and the item (count, type) of the field in its format.
\<close>

definition field_width :: "StructField \<Rightarrow> nat" where
  "field_width f = (if field_type f = CHAR_T then (case str_len f of None \<Rightarrow> 0 | Some n \<Rightarrow> nat n)
                    else itemsize (field_type f))"

definition field_item :: "StructField \<Rightarrow> nat \<times> field_type" where
  "field_item f = (if field_type f = CHAR_T then field_width f else 1, field_type f)"

text \<open>
  The layout of a list of fields under a byte order, and the class that \<^verbatim>\<open>MetaStruct.__new__\<close>
  compiles from a list of fields (lemma \<open>MetaStruct_new_compiled\<close> below).
\<close>

definition layout_of :: "platform \<Rightarrow> string \<Rightarrow> StructField list \<Rightarrow> slot list \<times> nat" where
  "layout_of p bo fl = layout p (fst (whichtable bo)) 0 (map field_item fl)"

definition compiled :: "platform \<Rightarrow> string \<Rightarrow> StructField list \<Rightarrow> struct_class \<Rightarrow> bool" where
  "compiled p bo fl cls \<longleftrightarrow>
     bo \<in> set byte_orders \<and> list_all fmt_ok fl \<and>
     BASE_STRUCT_FORMAT cls = concat (map field_fmt fl) \<and>
     STRUCT_FORMAT cls = bo @ concat (map field_fmt fl) \<and>
     NAME_INDEX_MAP cls = AList.updates (map name fl) [0..<length fl] [] \<and>
     PACKER cls = \<lparr>s_format = bo @ concat (map field_fmt fl), s_table = fst (whichtable bo),
                    s_slots = fst (layout_of p bo fl), s_size = snd (layout_of p bo fl)\<rparr> \<and>
     snd (layout_of p bo fl) \<le> ssize_max p"

text \<open>
  Slots are laid out from \<open>pos\<close> within \<open>tot\<close> bytes when no slot starts before the end of the
  one before it and the last one ends within the buffer. A slot of a numeric type has the size of
  its type.
\<close>

fun laid :: "nat \<Rightarrow> slot list \<Rightarrow> nat \<Rightarrow> bool" where
  "laid pos [] tot \<longleftrightarrow> pos \<le> tot"
| "laid pos ((off, ft, sz) # ss) tot \<longleftrightarrow> pos \<le> off \<and> laid (off + sz) ss tot"

definition slot_ok :: "slot \<Rightarrow> bool" where
  "slot_ok s = (case s of (off, ft, sz) \<Rightarrow> ft = CHAR_T \<or> sz = itemsize ft)"


section \<open>Inheritance\<close>

text \<open>
  The dictionary of a class that \<^verbatim>\<open>MetaStruct\<close> has created holds its body with the names bound
  (\<open>set_names\<close>); what the metaclass adds to it are no descriptors. A dictionary has its names
  bound when every descriptor in it carries the name of its attribute.
\<close>

definition names_bound :: "class_dict \<Rightarrow> bool" where
  "names_bound d = list_all (\<lambda>(k, v). case v of AField g \<Rightarrow> name g = k | _ \<Rightarrow> True) d"

text \<open>
  The descriptors of a dictionary, each with the attribute it is bound to; and the descriptor
  that a name stands for along an MRO: that of the first class, from the most derived one on,
  that binds the name to a descriptor.
\<close>

fun field_entries :: "class_dict \<Rightarrow> (string \<times> StructField) list" where
  "field_entries [] = []"
| "field_entries ((a, v) # rest) = (case v of AField f \<Rightarrow> [(a, f)] | _ \<Rightarrow> []) @ field_entries rest"

fun field_of :: "class_dict list \<Rightarrow> string \<Rightarrow> StructField option" where
  "field_of [] k = None"
| "field_of (d # ds) k = (case map_of d k of Some (AField f) \<Rightarrow> Some f | _ \<Rightarrow> field_of ds k)"

text \<open>
  A class body with every descriptor carrying the name of its attribute: what \<open>set_names\<close>
  makes of a body that binds no descriptor object twice (lemma \<open>class_mro_once\<close> below).
\<close>

definition own_names :: "class_dict \<Rightarrow> class_dict" where
  "own_names attrs =
     map (\<lambda>(a, v). (a, case v of AField f \<Rightarrow> AField (f\<lparr>name := a\<rparr>) | _ \<Rightarrow> v)) attrs"

text \<open>
  A base class with the body \<^verbatim>\<open>a = uint8_t()\<close>, \<^verbatim>\<open>b = uint16_t()\<close> and a class derived from it
  with the body \<^verbatim>\<open>a = uint32_t(7)\<close>, each with the class compiled from it.
\<close>

definition base_attrs :: "nat \<Rightarrow> class_dict" where
  "base_attrs c =
     [(''a'', AField \<lparr>field_type = UINT8_T, default_value = PyNone, str_len = None, count = c, index = 0, name = []\<rparr>),
      (''b'', AField \<lparr>field_type = UINT16_T, default_value = PyNone, str_len = None, count = Suc c, index = 0, name = []\<rparr>)]"

definition base_cls :: "addr \<Rightarrow> struct_class" where
  "base_cls a =
     \<lparr>BASE_STRUCT_FORMAT = ''BH'', STRUCT_FORMAT = ''<BH'',
      NAME_INDEX_MAP = [(''a'', 0), (''b'', 1)], DEFAULT_VALUES = a,
      PACKER = \<lparr>s_format = ''<BH'', s_table = LittleEndian,
                 s_slots = [(0, UINT8_T, 1), (1, UINT16_T, 2)], s_size = 3\<rparr>,
      values_is_field = False\<rparr>"

definition derived_attrs :: "nat \<Rightarrow> class_dict" where
  "derived_attrs c =
     [(''a'', AField \<lparr>field_type = UINT32_T, default_value = PyInt 7, str_len = None, count = c, index = 0, name = []\<rparr>)]"

definition derived_cls :: "addr \<Rightarrow> struct_class" where
  "derived_cls a =
     \<lparr>BASE_STRUCT_FORMAT = ''HI'', STRUCT_FORMAT = ''<HI'',
      NAME_INDEX_MAP = [(''b'', 0), (''a'', 1)], DEFAULT_VALUES = a,
      PACKER = \<lparr>s_format = ''<HI'', s_table = LittleEndian,
                 s_slots = [(0, UINT16_T, 2), (2, UINT32_T, 4)], s_size = 6\<rparr>,
      values_is_field = False\<rparr>"

text \<open>
  A class derived from the same base with the body \<^verbatim>\<open>a = b = uint8_t(3)\<close>, which binds one
  descriptor object to two names, and the class compiled from it.
\<close>

definition alias_attrs :: "nat \<Rightarrow> class_dict" where
  "alias_attrs c =
     [(''a'', AField \<lparr>field_type = UINT8_T, default_value = PyInt 3, str_len = None, count = c, index = 0, name = []\<rparr>),
      (''b'', AField \<lparr>field_type = UINT8_T, default_value = PyInt 3, str_len = None, count = c, index = 0, name = []\<rparr>)]"

definition alias_cls :: "addr \<Rightarrow> struct_class" where
  "alias_cls a =
     \<lparr>BASE_STRUCT_FORMAT = ''BB'', STRUCT_FORMAT = ''<BB'',
      NAME_INDEX_MAP = [(''b'', 1)], DEFAULT_VALUES = a,
      PACKER = \<lparr>s_format = ''<BB'', s_table = LittleEndian,
                 s_slots = [(0, UINT8_T, 1), (1, UINT8_T, 1)], s_size = 2\<rparr>,
      values_is_field = False\<rparr>"

section \<open>Evaluation\<close>

lemmas str_nat_eval = str_nat.simps [of 0] str_nat.simps [of 1] str_nat.simps [of "numeral k"] for k
lemmas bit_length_eval = bit_length.simps [of 0] bit_length.simps [of 1] bit_length.simps [of "numeral k"] for k

lemmas ctor_defs = int8_t_def uint8_t_def int16_t_def uint16_t_def int32_t_def uint32_t_def
  int64_t_def uint64_t_def float32_t_def float64_t_def char_field_def StructField_init_def

lemmas class_defs = MetaStruct_new_def class_mro_def set_names_def bound_name_def struct_fields_def field_list_def
  Struct_mro_def Struct_dict_def alloc_def py_struct_new_def str_opt_def str_int_def digit_char_def
  isspace_def isdigit_def digit_val_def getentry_def align_def DEFAULT_BYTE_ORDER_def
  BYTE_ORDER_LITTLE_ENDIAN_def BYTE_ORDER_NATIVE_def BYTE_ORDER_NATIVE_STD_def BYTE_ORDER_BIG_ENDIAN_def
  BYTE_ORDER_NETWORK_def str_nat_eval

lemmas pack_defs = pack_def unpack_def py_struct_pack_def py_struct_unpack_def is_le_def
  pack_value_def unpack_value_def unpack_int_def order_bytes_def int_min_def int_max_def alloc_def

lemma scenario_body_eval: "class_body scenario_body [] c = (Inr (scenario_attrs c), c + 3)"
  by (simp add: scenario_body_def scenario_attrs_def ctor_defs)

lemma scenario_class_eval:
  "9 \<le> ssize_max p \<Longrightarrow>
   MetaStruct_new p (scenario_attrs c) Struct_mro h = (Inr (scenario_cls (length h)), h @ [scenario_defaults])"
  by (simp add: scenario_attrs_def scenario_cls_def scenario_defaults_def class_defs)

lemma scenario_class_ok: "class_ok (scenario_cls 0) (scenario_defaults # h)"
  by (simp add: class_ok_def scenario_cls_def scenario_defaults_def)

section \<open>Field descriptors: construction\<close>

text \<open>
  Claim C7, as the code has it. Constructing a descriptor fails with \<^verbatim>\<open>StructException\<close> exactly
  when the type is \<^verbatim>\<open>CHAR\<close> and the length is \<^verbatim>\<open>None\<close> or \<^verbatim>\<open>0\<close>, and then the counter is
  not advanced. Every other construction succeeds, takes the next count and stores its
  arguments: any other type with any length argument, and \<^verbatim>\<open>CHAR\<close> with any length other than
  zero, a negative one included.
\<close>

theorem C7_descriptor_construction:
  "(ft = CHAR_T \<and> (sl = None \<or> sl = Some 0) \<longrightarrow>
      StructField_init ft d sl c = (Inl (StructException CharStrlenRequired), c)) \<and>
   (ft \<noteq> CHAR_T \<or> (\<exists>n. sl = Some n \<and> n \<noteq> 0) \<longrightarrow>
      (\<exists>f. StructField_init ft d sl c = (Inr f, Suc c) \<and> field_type f = ft \<and>
            default_value f = d \<and> str_len f = sl \<and> count f = c))"
  by (auto simp: StructField_init_def)

theorem C7_descriptor_construction_witness:
  "char_field None PyNone 5 = (Inl (StructException CharStrlenRequired), 5) \<and>
   char_field (Some 0) PyNone 5 = (Inl (StructException CharStrlenRequired), 5) \<and>
   (\<exists>f. char_field (Some 4) PyNone 5 = (Inr f, 6) \<and> field_type f = CHAR_T \<and>
        str_len f = Some 4 \<and> count f = 5) \<and>
   (\<exists>f. char_field (Some (- 4)) PyNone 5 = (Inr f, 6) \<and> field_type f = CHAR_T \<and>
        str_len f = Some (- 4) \<and> count f = 5) \<and>
   (\<exists>f. uint16_t (PyInt 3) 5 = (Inr f, 6) \<and> field_type f = UINT16_T \<and>
        default_value f = PyInt 3 \<and> count f = 5)"
  using C7_descriptor_construction [of CHAR_T None PyNone 5]
    C7_descriptor_construction [of CHAR_T "Some 0" PyNone 5]
    C7_descriptor_construction [of CHAR_T "Some 4" PyNone 5]
    C7_descriptor_construction [of CHAR_T "Some (- 4)" PyNone 5]
    C7_descriptor_construction [of UINT16_T None "PyInt 3" 5]
  by (auto simp: char_field_def uint16_t_def)

text \<open>
  Claim C7 as stated also rejects a negative length. The code accepts it: \<^verbatim>\<open>char(-1)\<close>
  returns a descriptor.
\<close>

theorem C7_negative_length_accepted:
  "char_field (Some (- 1)) PyNone 0 =
     (Inr \<lparr>field_type = CHAR_T, default_value = PyNone, str_len = Some (- 1), count = 0,
           index = 0, name = []\<rparr>, 1)"
  by (simp add: char_field_def StructField_init_def)

section \<open>The object store\<close>

lemma init_kwargs_frame:
  "init_kwargs nim a kw h = (r, h') \<Longrightarrow> length h' = length h \<and> (\<forall>b. b \<noteq> a \<longrightarrow> h' ! b = h ! b)"
proof (induction nim arbitrary: kw h)
  case Nil
  then show ?case by simp
next
  case (Cons x nim)
  obtain nm idx where x: "x = (nm, idx)" by (cases x)
  show ?case
  proof (cases "map_of kw nm")
    case None
    with Cons x show ?thesis by simp
  next
    case (Some v)
    show ?thesis
    proof (cases "setitem (h ! a) idx v")
      case (Inl e)
      with Cons.prems x Some show ?thesis by simp
    next
      case (Inr s)
      with Cons.prems x Some have "init_kwargs nim a (AList.delete nm kw) (h[a := s]) = (r, h')"
        by simp
      from Cons.IH [OF this] show ?thesis by simp
    qed
  qed
qed





lemma Struct_init_frame:
  assumes "Struct_init cls kw h = (r, h')"
  shows "length h \<le> length h' \<and> (\<forall>b < length h. h' ! b = h ! b) \<and>
         (\<forall>s. r = Inr s \<longrightarrow> self_values s = length h \<and> klass s = cls \<and>
                length h' = Suc (length h))"
proof (cases "''self'' \<in> set (map fst kw) \<or> values_is_field cls \<or> kw = []")
  case True
  with assms show ?thesis by (auto simp: Struct_init_def alloc_def Let_def nth_append split: if_splits)
next
  case False
  let ?h1 = "h @ [PyList (items (h ! DEFAULT_VALUES cls))]"
  obtain r0 h2 where ik: "init_kwargs (NAME_INDEX_MAP cls) (length h) kw ?h1 = (r0, h2)"
    by (cases "init_kwargs (NAME_INDEX_MAP cls) (length h) kw ?h1")
  from init_kwargs_frame [OF ik]
  have fr: "length h2 = Suc (length h)" "\<forall>b < length h. h2 ! b = h ! b"
    by (auto simp: nth_append)
  from assms False ik have "h' = h2"
    by (auto simp: Struct_init_def alloc_def split: sum.splits if_splits)
  moreover from assms False ik have "\<forall>s. r = Inr s \<longrightarrow> self_values s = length h \<and> klass s = cls"
    by (auto simp: Struct_init_def alloc_def split: sum.splits if_splits)
  ultimately show ?thesis using fr by simp
qed

lemma class_ok_frame:
  "class_ok cls h \<Longrightarrow> length h \<le> length h' \<Longrightarrow>
   h' ! DEFAULT_VALUES cls = h ! DEFAULT_VALUES cls \<Longrightarrow> class_ok cls h'"
  by (simp add: class_ok_def)

lemma class_ok_Struct_init:
  assumes "class_ok cls h" and "Struct_init cls' kw h = (r, h')"
  shows "class_ok cls h'"
proof -
  from assms(1) have "DEFAULT_VALUES cls < length h" by (simp add: class_ok_def)
  with Struct_init_frame [OF assms(2)] show ?thesis
    by (intro class_ok_frame [OF assms(1)]) simp_all
qed

lemma set_field_value_frame:
  "set_field_value r nm v h = (res, h') \<Longrightarrow>
   length h' = length h \<and> (\<forall>b. b \<noteq> self_values r \<longrightarrow> h' ! b = h ! b)"
  by (auto simp: set_field_value_def split: option.splits sum.splits)

section \<open>Value independence of instances\<close>

text \<open>
  Claim C10. Instances of one class do not share their values. \<^verbatim>\<open>__init__\<close> copies the class's
  list of defaults into a new list object: the new instance's list is neither the list of defaults
  nor the list of an instance constructed before, constructing an instance (with or without named
  values) changes neither the defaults nor the values of an earlier instance, and setting a field
  of one instance changes neither the defaults nor the values of the other instance.
\<close>

theorem C10_instances_independent:
  assumes ok: "class_ok cls h0"
    and i1: "Struct_init cls kw1 h0 = (Inr r1, h1)"
    and i2: "Struct_init cls kw2 h1 = (Inr r2, h2)"
    and s1: "set_field_value r1 nm v h2 = (res, h3)"
    and s2: "set_field_value r2 nm' v' h2 = (res', h3')"
  shows "self_values r1 \<noteq> DEFAULT_VALUES cls \<and> self_values r2 \<noteq> DEFAULT_VALUES cls \<and>
         self_values r1 \<noteq> self_values r2 \<and>
         h1 ! DEFAULT_VALUES cls = h0 ! DEFAULT_VALUES cls \<and>
         h2 ! DEFAULT_VALUES cls = h0 ! DEFAULT_VALUES cls \<and>
         h3 ! DEFAULT_VALUES cls = h0 ! DEFAULT_VALUES cls \<and>
         h3' ! DEFAULT_VALUES cls = h0 ! DEFAULT_VALUES cls \<and>
         h2 ! self_values r1 = h1 ! self_values r1 \<and>
         h3 ! self_values r2 = h2 ! self_values r2 \<and>
         h3' ! self_values r1 = h2 ! self_values r1"
proof -
  from ok have d: "DEFAULT_VALUES cls < length h0" by (simp add: class_ok_def)
  from Struct_init_frame [OF i1]
  have a1: "self_values r1 = length h0" and l1: "length h1 = Suc (length h0)"
    and f1: "\<forall>b < length h0. h1 ! b = h0 ! b" by auto
  from Struct_init_frame [OF i2]
  have a2: "self_values r2 = length h1" and f2: "\<forall>b < length h1. h2 ! b = h1 ! b" by auto
  from set_field_value_frame [OF s1] have f3: "\<forall>b. b \<noteq> self_values r1 \<longrightarrow> h3 ! b = h2 ! b" by simp
  from set_field_value_frame [OF s2] have f4: "\<forall>b. b \<noteq> self_values r2 \<longrightarrow> h3' ! b = h2 ! b" by simp
  from d a1 a2 l1 f1 f2 f3 f4 show ?thesis by auto
qed

theorem C10_instances_independent_witness:
  "class_ok (scenario_cls 0) [scenario_defaults] \<and>
   Struct_init (scenario_cls 0) [(''flag'', PyInt 7)] [scenario_defaults] =
     (Inr \<lparr>klass = scenario_cls 0, self_values = 1\<rparr>,
      [scenario_defaults, PyList [PyInt 0, PyInt 7, PyBytes [110, 111, 110, 101]]]) \<and>
   Struct_init (scenario_cls 0) []
      [scenario_defaults, PyList [PyInt 0, PyInt 7, PyBytes [110, 111, 110, 101]]] =
     (Inr \<lparr>klass = scenario_cls 0, self_values = 2\<rparr>,
      [scenario_defaults, PyList [PyInt 0, PyInt 7, PyBytes [110, 111, 110, 101]], scenario_defaults]) \<and>
   set_field_value \<lparr>klass = scenario_cls 0, self_values = 1\<rparr> ''id'' (PyInt 5)
      [scenario_defaults, PyList [PyInt 0, PyInt 7, PyBytes [110, 111, 110, 101]], scenario_defaults] =
     (Inr (), [scenario_defaults, PyList [PyInt 5, PyInt 7, PyBytes [110, 111, 110, 101]], scenario_defaults]) \<and>
   set_field_value \<lparr>klass = scenario_cls 0, self_values = 2\<rparr> ''id'' (PyInt 9)
      [scenario_defaults, PyList [PyInt 0, PyInt 7, PyBytes [110, 111, 110, 101]], scenario_defaults] =
     (Inr (), [scenario_defaults, PyList [PyInt 0, PyInt 7, PyBytes [110, 111, 110, 101]],
               PyList [PyInt 9, PyInt 1, PyBytes [110, 111, 110, 101]]])"
proof -
  let ?r1 = "\<lparr>klass = scenario_cls 0, self_values = 1\<rparr>" and ?r2 = "\<lparr>klass = scenario_cls 0, self_values = 2\<rparr>"
  let ?l = "PyList [PyInt 0, PyInt 7, PyBytes [110, 111, 110, 101]]"
  have ok: "class_ok (scenario_cls 0) [scenario_defaults]" by (rule scenario_class_ok)
  have i1: "Struct_init (scenario_cls 0) [(''flag'', PyInt 7)] [scenario_defaults] =
     (Inr ?r1, [scenario_defaults, ?l])"
    by (simp add: Struct_init_def alloc_def scenario_cls_def scenario_defaults_def AList.delete_eq)
  have i2: "Struct_init (scenario_cls 0) [] [scenario_defaults, ?l] =
     (Inr ?r2, [scenario_defaults, ?l, scenario_defaults])"
    by (simp add: Struct_init_def alloc_def scenario_cls_def scenario_defaults_def)
  have s1: "set_field_value ?r1 ''id'' (PyInt 5) [scenario_defaults, ?l, scenario_defaults] =
     (Inr (), [scenario_defaults, PyList [PyInt 5, PyInt 7, PyBytes [110, 111, 110, 101]], scenario_defaults])"
    by (simp add: set_field_value_def scenario_cls_def)
  have s2: "set_field_value ?r2 ''id'' (PyInt 9) [scenario_defaults, ?l, scenario_defaults] =
     (Inr (), [scenario_defaults, ?l, PyList [PyInt 9, PyInt 1, PyBytes [110, 111, 110, 101]]])"
    by (simp add: set_field_value_def scenario_cls_def scenario_defaults_def)
  note C10_instances_independent [OF ok i1 i2 s1 s2]
  with ok i1 i2 s1 s2 show ?thesis by simp
qed

section \<open>Field access by name\<close>

text \<open>
  Claim C4, as the code has it. For a name that is no key of the class's name-index map, both
  \<^verbatim>\<open>get_field_value\<close> and \<^verbatim>\<open>set_field_value\<close> raise Python's \<^verbatim>\<open>KeyError\<close> (not the library's
  \<^verbatim>\<open>StructException\<close>), and \<^verbatim>\<open>set_field_value\<close> leaves the store, hence the record's values,
  unchanged.
\<close>

theorem C4_unknown_name_KeyError:
  assumes "nm \<notin> fst ` set (NAME_INDEX_MAP (klass self))"
  shows "get_field_value self nm h = Inl (KeyError nm) \<and>
         set_field_value self nm v h = (Inl (KeyError nm), h)"
proof -
  from assms have "map_of (NAME_INDEX_MAP (klass self)) nm = None"
    by (simp add: map_of_eq_None_iff)
  then show ?thesis by (simp add: get_field_value_def set_field_value_def)
qed

theorem C4_unknown_name_KeyError_witness:
  "''colour'' \<notin> fst ` set (NAME_INDEX_MAP (klass \<lparr>klass = scenario_cls 0, self_values = 1\<rparr>)) \<and>
   get_field_value \<lparr>klass = scenario_cls 0, self_values = 1\<rparr> ''colour''
     [scenario_defaults, scenario_defaults] = Inl (KeyError ''colour'') \<and>
   set_field_value \<lparr>klass = scenario_cls 0, self_values = 1\<rparr> ''colour'' (PyInt 3)
     [scenario_defaults, scenario_defaults] =
     (Inl (KeyError ''colour''), [scenario_defaults, scenario_defaults])"
proof -
  have h: "''colour'' \<notin> fst ` set (NAME_INDEX_MAP (klass \<lparr>klass = scenario_cls 0, self_values = 1\<rparr>))"
    by (simp add: scenario_cls_def)
  from C4_unknown_name_KeyError [OF h] h show ?thesis by simp
qed

text \<open>
  Claim C4 as stated names the library's error type. Reading the unknown field \<^verbatim>\<open>colour\<close> of a
  new record of the scenario's type raises \<^verbatim>\<open>KeyError\<close>.
\<close>

theorem C4_get_unknown_not_StructException:
  "get_field_value \<lparr>klass = scenario_cls 0, self_values = 1\<rparr> ''colour''
     [scenario_defaults, scenario_defaults] = Inl (KeyError ''colour'')"
  by (simp add: get_field_value_def scenario_cls_def)

lemma unpack_success:
  assumes "unpack p self bs h = (Inr (), self', h')"
  shows "\<exists>vs. self' = self\<lparr>self_values := length h\<rparr> \<and> h' = h @ [PyTuple vs] \<and>
              py_struct_unpack p (PACKER (klass self)) bs = Inr vs"
  using assms by (auto simp: unpack_def alloc_def split: sum.splits)

lemma set_then_get_list:
  assumes "map_of (NAME_INDEX_MAP (klass self)) nm = Some i"
    and "self_values self < length h" and "h ! self_values self = PyList xs" and "i < length xs"
  shows "set_field_value self nm v h = (Inr (), h[self_values self := PyList (xs[i := v])]) \<and>
         get_field_value self nm (h[self_values self := PyList (xs[i := v])]) = Inr v"
  using assms by (simp add: set_field_value_def get_field_value_def getitem_def)

text \<open>
  Claim C5 holds while \<^verbatim>\<open>self.values\<close> is the list that \<^verbatim>\<open>__init__\<close> made (lemma
  \<open>set_then_get_list\<close>). It fails on the code after \<^verbatim>\<open>unpack\<close>: \<^verbatim>\<open>self.values\<close> is then the tuple
  that \<^verbatim>\<open>struct\<close> returned, and setting any field the class knows raises \<^verbatim>\<open>TypeError\<close> and
  changes nothing.
\<close>

theorem C5_set_after_unpack_TypeError:
  assumes "unpack p self bs h = (Inr (), self', h')"
    and "nm \<in> fst ` set (NAME_INDEX_MAP (klass self'))"
  shows "set_field_value self' nm v h' = (Inl TypeError, h')"
proof -
  from unpack_success [OF assms(1)] obtain vs where
    s: "self' = self\<lparr>self_values := length h\<rparr>" and h': "h' = h @ [PyTuple vs]" by blast
  from assms(2) obtain idx where "map_of (NAME_INDEX_MAP (klass self')) nm = Some idx"
    by (cases "map_of (NAME_INDEX_MAP (klass self')) nm") (auto simp: map_of_eq_None_iff)
  with s h' show ?thesis by (simp add: set_field_value_def)
qed

theorem C5_set_after_unpack_TypeError_witness:
  "unpack x86_64 \<lparr>klass = scenario_cls 0, self_values = 1\<rparr> [1, 0, 0, 0, 0, 97, 98, 99, 100]
     [scenario_defaults, scenario_defaults] =
     (Inr (), \<lparr>klass = scenario_cls 0, self_values = 2\<rparr>,
      [scenario_defaults, scenario_defaults, PyTuple [PyInt 1, PyInt 0, PyBytes [97, 98, 99, 100]]]) \<and>
   ''flag'' \<in> fst ` set (NAME_INDEX_MAP (klass \<lparr>klass = scenario_cls 0, self_values = 2\<rparr>)) \<and>
   set_field_value \<lparr>klass = scenario_cls 0, self_values = 2\<rparr> ''flag'' (PyInt 1)
      [scenario_defaults, scenario_defaults, PyTuple [PyInt 1, PyInt 0, PyBytes [97, 98, 99, 100]]] =
     (Inl TypeError,
      [scenario_defaults, scenario_defaults, PyTuple [PyInt 1, PyInt 0, PyBytes [97, 98, 99, 100]]])"
proof -
  have u: "unpack x86_64 \<lparr>klass = scenario_cls 0, self_values = 1\<rparr> [1, 0, 0, 0, 0, 97, 98, 99, 100]
     [scenario_defaults, scenario_defaults] =
     (Inr (), \<lparr>klass = scenario_cls 0, self_values = 2\<rparr>,
      [scenario_defaults, scenario_defaults, PyTuple [PyInt 1, PyInt 0, PyBytes [97, 98, 99, 100]]])"
    by (simp add: pack_defs scenario_cls_def)
  have n: "''flag'' \<in> fst ` set (NAME_INDEX_MAP (klass \<lparr>klass = scenario_cls 0, self_values = 2\<rparr>))"
    by (simp add: scenario_cls_def)
  from C5_set_after_unpack_TypeError [OF u n] u n show ?thesis by simp
qed

section \<open>Construction with named values\<close>






section \<open>Format strings of field lists\<close>

lemma compile_fields_eq:
  "compile_fields i fs (fmt, nim, dv) =
     (fmt @ concat (map field_fmt fs),
      AList.updates (map name fs) [i..<i + length fs] nim,
      dv @ map default_value fs)"
proof (induction fs arbitrary: i fmt nim dv)
  case Nil
  then show ?case by simp
next
  case (Cons f fs)
  have "[i..<i + length (f # fs)] = i # [Suc i..<Suc i + length fs]"
    by (subst upt_rec) simp
  then show ?case
    by (simp add: Cons.IH field_fmt_def)
qed

lemma digit_char_props:
  "d < 10 \<Longrightarrow> isdigit (digit_char d) \<and> \<not> isspace (digit_char d) \<and> digit_val (digit_char d) = d"
proof -
  assume "d < 10"
  then have "d \<in> {0,1,2,3,4,5,6,7,8,9}" by auto
  then show ?thesis
    by (auto simp: digit_char_def isdigit_def isspace_def digit_val_def)
qed

lemma parse_digit:
  "d < 10 \<Longrightarrow> parse_items num (digit_char d # s) =
     parse_items (Some ((case num of None \<Rightarrow> 0 | Some n \<Rightarrow> n) * 10 + d)) s"
  using digit_char_props [of d] by simp

lemma parse_str_nat:
  "parse_items num (str_nat n @ s) =
     parse_items (Some ((case num of None \<Rightarrow> 0 | Some a \<Rightarrow> a) * 10 ^ length (str_nat n) + n)) s"
proof (induction n arbitrary: num s rule: str_nat.induct)
  case (1 n)
  show ?case
  proof (cases "n < 10")
    case True
    then show ?thesis by (simp add: str_nat.simps [of n] parse_digit del: parse_items.simps)
  next
    case False
    have m: "n mod 10 < 10" by simp
    from False have sn: "str_nat n = str_nat (n div 10) @ [digit_char (n mod 10)]"
      by (simp add: str_nat.simps [of n])
    have "parse_items num (str_nat n @ s) = parse_items num (str_nat (n div 10) @ (digit_char (n mod 10) # s))"
      by (simp add: sn)
    also have "\<dots> = parse_items (Some ((case num of None \<Rightarrow> 0 | Some a \<Rightarrow> a) * 10 ^ length (str_nat (n div 10)) + n div 10))
                       (digit_char (n mod 10) # s)"
      using "1.IH" [OF False] by (simp del: parse_items.simps)
    also have "\<dots> = parse_items (Some (((case num of None \<Rightarrow> 0 | Some a \<Rightarrow> a) * 10 ^ length (str_nat (n div 10)) + n div 10) * 10 + n mod 10)) s"
      by (simp add: parse_digit [OF m] del: parse_items.simps)
    also have "((case num of None \<Rightarrow> 0 | Some a \<Rightarrow> a) * 10 ^ length (str_nat (n div 10)) + n div 10) * 10 + n mod 10
       = (case num of None \<Rightarrow> 0 | Some a \<Rightarrow> a) * 10 ^ length (str_nat n) + n"
      by (simp add: sn algebra_simps)
    finally show ?thesis .
  qed
qed

lemma type_code_props:
  "\<not> isspace (type_code ft) \<and> \<not> isdigit (type_code ft) \<and> getentry (type_code ft) = Some ft"
  by (cases ft) (simp_all add: isspace_def isdigit_def getentry_def)

lemma parse_type_code:
  "parse_items num (type_code ft # s) =
     (case parse_items None s of Inl e \<Rightarrow> Inl e
      | Inr its \<Rightarrow> Inr ((case num of None \<Rightarrow> 1 | Some n \<Rightarrow> n, ft) # its))"
  using type_code_props [of ft] by simp

lemma parse_field_fmt:
  "parse_items None (field_fmt f @ s) =
     (if fmt_ok f
      then (case parse_items None s of Inl e \<Rightarrow> Inl e | Inr its \<Rightarrow> Inr (field_item f # its))
      else Inl StructError)"
proof (cases "field_type f = CHAR_T")
  case False
  then show ?thesis
    by (simp add: field_fmt_def fmt_ok_def field_item_def parse_type_code del: parse_items.simps
          split: sum.splits)
next
  case True
  show ?thesis
  proof (cases "str_len f")
    case None
    with True show ?thesis
      by (simp add: field_fmt_def fmt_ok_def str_opt_def isspace_def isdigit_def getentry_def)
  next
    case (Some n)
    show ?thesis
    proof (cases "n < 0")
      case True
      with \<open>field_type f = CHAR_T\<close> Some show ?thesis
        by (simp add: field_fmt_def fmt_ok_def str_opt_def str_int_def isspace_def isdigit_def getentry_def)
    next
      case False
      with \<open>field_type f = CHAR_T\<close> Some
      have "parse_items None (field_fmt f @ s) = parse_items None (str_nat (nat n) @ (CHR ''s'' # s))"
        by (simp add: field_fmt_def str_opt_def str_int_def)
      also have "\<dots> = parse_items (Some (nat n)) (type_code CHAR_T # s)"
        by (simp add: parse_str_nat del: parse_items.simps)
      finally show ?thesis
        using False \<open>field_type f = CHAR_T\<close> Some
        by (simp only: parse_type_code) (simp add: fmt_ok_def field_item_def field_width_def split: sum.splits)
    qed
  qed
qed

lemma parse_fields:
  "parse_items None (concat (map field_fmt fs)) =
     (if list_all fmt_ok fs then Inr (map field_item fs) else Inl StructError)"
  by (induction fs) (simp_all add: parse_field_fmt)

section \<open>Layouts\<close>

lemma align_ge: "sz \<le> align p t ft sz"
  by (simp add: align_def Let_def)

lemma align_std: "t \<noteq> Native \<Longrightarrow> align p t ft sz = sz"
  by (simp add: align_def)

lemma laid_mono: "laid pos ss tot \<Longrightarrow> pos' \<le> pos \<Longrightarrow> laid pos' ss tot"
  by (cases ss) auto

lemma laid_repeat:
  "laid (off + n * isz) ss tot \<Longrightarrow> pos \<le> off \<Longrightarrow>
   laid pos (map (\<lambda>j. (off + j * isz, ft, isz)) [0..<n] @ ss) tot"
proof (induction n arbitrary: off pos)
  case 0
  then show ?case by (auto intro: laid_mono)
next
  case (Suc n)
  have "map (\<lambda>j. (off + j * isz, ft, isz)) [0..<Suc n] =
        (off, ft, isz) # map (\<lambda>j. ((off + isz) + j * isz, ft, isz)) [0..<n]"
    by (simp add: map_upt_Suc add.assoc del: upt_Suc)
  moreover have "laid (off + isz) (map (\<lambda>j. ((off + isz) + j * isz, ft, isz)) [0..<n] @ ss) tot"
    using Suc.prems(1) by (intro Suc.IH) (simp_all add: algebra_simps)
  ultimately show ?case using Suc.prems(2) by (simp del: upt_Suc)
qed

lemma layout_laid: "laid sz (fst (layout p t sz its)) (snd (layout p t sz its))"
proof (induction its arbitrary: sz)
  case Nil
  then show ?case by simp
next
  case (Cons it its)
  obtain num ft where it: "it = (num, ft)" by (cases it)
  show ?case
  proof (cases "ft = CHAR_T")
    case True
    with it Cons.IH [of "align p t ft sz + num"] show ?thesis
      by (simp add: Let_def split_beta align_ge)
  next
    case False
    with it laid_repeat [OF Cons.IH [of "align p t ft sz + num * itemsize ft"] align_ge [of sz p t ft], of ft]
    show ?thesis
      by (simp add: Let_def split_beta)
  qed
qed

lemma layout_slot_ok: "list_all slot_ok (fst (layout p t sz its))"
proof (induction its arbitrary: sz)
  case Nil
  then show ?case by simp
next
  case (Cons it its)
  obtain num ft where it: "it = (num, ft)" by (cases it)
  with Cons.IH show ?case
    by (auto simp: Let_def split_beta slot_ok_def list_all_iff)
qed

lemma layout_fields_types:
  "map (\<lambda>(off, ft, sz). (ft, sz)) (fst (layout p t sz (map field_item fs))) =
     map (\<lambda>f. (field_type f, field_width f)) fs"
  by (induction fs arbitrary: sz) (auto simp: field_item_def field_width_def Let_def split_beta)

lemma layout_fields_size_std:
  "t \<noteq> Native \<Longrightarrow> snd (layout p t sz (map field_item fs)) = sz + sum_list (map field_width fs)"
  by (induction fs arbitrary: sz) (auto simp: field_item_def field_width_def Let_def split_beta align_std)

lemma layout_fields_size_ge:
  "sz + sum_list (map field_width fs) \<le> snd (layout p t sz (map field_item fs))"
proof (induction fs arbitrary: sz)
  case Nil
  then show ?case by simp
next
  case (Cons f fs)
  have a: "sz \<le> align p t (field_type f) sz" by (rule align_ge)
  show ?case
  proof (cases "field_type f = CHAR_T")
    case True
    with Cons.IH [of "align p t CHAR_T sz + field_width f"] a show ?thesis
      by (simp add: field_item_def Let_def split_beta)
  next
    case False
    with Cons.IH [of "align p t (field_type f) sz + itemsize (field_type f)"] a show ?thesis
      by (simp add: field_item_def field_width_def Let_def split_beta)
  qed
qed

lemma pack_value_length:
  "pack_value native le ft sz v = Inr bs \<Longrightarrow> slot_ok (off, ft, sz) \<Longrightarrow> length bs = sz"
proof -
  have l: "length (int_bytes_le n i) = n" for n i by (induction n arbitrary: i) auto
  assume "pack_value native le ft sz v = Inr bs" "slot_ok (off, ft, sz)"
  then show ?thesis
    by (auto simp: pack_value_def slot_ok_def order_bytes_def l split: if_splits pyval.splits option.splits)
qed

lemma pack_slots_length:
  "pack_slots native le tot pos ss vs = Inr bs \<Longrightarrow> laid pos ss tot \<Longrightarrow> list_all slot_ok ss \<Longrightarrow>
   length bs = tot - pos"
proof (induction native le tot pos ss vs arbitrary: bs rule: pack_slots.induct)
  case (1 native le tot pos off ft sz ss v vs)
  from "1.prems"(1) obtain b r where b: "pack_value native le ft sz v = Inr b"
    and r: "pack_slots native le tot (off + sz) ss vs = Inr r" and bs: "bs = replicate (off - pos) 0 @ b @ r"
    by (auto split: sum.splits)
  from "1.prems" have "laid (off + sz) ss tot" "list_all slot_ok ss" "slot_ok (off, ft, sz)" "pos \<le> off"
    by auto
  from "1.IH" [OF b r this(1,2)] pack_value_length [OF b this(3)] this(4) bs
  have "length bs = (off - pos) + sz + (tot - (off + sz))" by simp
  moreover have "off + sz \<le> tot"
    using \<open>laid (off + sz) ss tot\<close>
  proof (induction ss arbitrary: off sz)
    case Nil then show ?case by simp
  next
    case (Cons s ss)
    obtain o' f' s' where "s = (o', f', s')" by (cases s)
    with Cons show ?case by fastforce
  qed
  ultimately show ?case using \<open>pos \<le> off\<close> by simp
qed simp_all

section \<open>Round trip of one value and of the slots\<close>














section \<open>Compiled classes\<close>

lemma whichtable_order: "bo \<in> set byte_orders \<Longrightarrow> whichtable (bo @ fmt) = (fst (whichtable bo), fmt)"
  by (auto simp: byte_orders_def BYTE_ORDER_NATIVE_def BYTE_ORDER_NATIVE_STD_def
      BYTE_ORDER_LITTLE_ENDIAN_def BYTE_ORDER_BIG_ENDIAN_def BYTE_ORDER_NETWORK_def)

lemma py_struct_new_fields:
  assumes "bo \<in> set byte_orders"
  shows "py_struct_new p (bo @ concat (map field_fmt fl)) =
     (if list_all fmt_ok fl \<and> snd (layout_of p bo fl) \<le> ssize_max p
      then Inr \<lparr>s_format = bo @ concat (map field_fmt fl), s_table = fst (whichtable bo),
                 s_slots = fst (layout_of p bo fl), s_size = snd (layout_of p bo fl)\<rparr>
      else Inl StructError)"
  by (simp add: py_struct_new_def whichtable_order [OF assms] parse_fields layout_of_def split_beta Let_def)

lemma MetaStruct_new_eq:
  "MetaStruct_new p attrs bases h =
     (let mro = class_mro attrs bases; fl = field_list mro; fmt = concat (map field_fmt fl);
          h' = h @ [PyList (map default_value fl)]
      in case (case getattr_mro mro ''BYTE_ORDER'' of
                 None \<Rightarrow> Inr DEFAULT_BYTE_ORDER
               | Some (AStr s) \<Rightarrow> Inr s
               | Some _ \<Rightarrow> Inl TypeError) of
           Inl e \<Rightarrow> (Inl e, h')
         | Inr bo \<Rightarrow>
            (case py_struct_new p (bo @ fmt) of
               Inl e \<Rightarrow> (Inl e, h')
             | Inr packer \<Rightarrow>
                (Inr \<lparr>BASE_STRUCT_FORMAT = fmt, STRUCT_FORMAT = bo @ fmt,
                       NAME_INDEX_MAP = AList.updates (map name fl) [0..<length fl] [],
                       DEFAULT_VALUES = length h, PACKER = packer,
                       values_is_field = (case getattr_mro mro ''values'' of
                                            Some (AField f) \<Rightarrow> True | _ \<Rightarrow> False)\<rparr>, h')))"
  by (simp add: MetaStruct_new_def compile_fields_eq alloc_def Let_def)

lemma MetaStruct_new_compiled:
  assumes new: "MetaStruct_new p attrs bases h0 = (Inr cls, h1)"
    and bo: "getattr_mro (class_mro attrs bases) ''BYTE_ORDER'' = Some (AStr bo)"
    and sup: "bo \<in> set byte_orders"
  shows "compiled p bo (field_list (class_mro attrs bases)) cls \<and>
         DEFAULT_VALUES cls = length h0 \<and>
         h1 = h0 @ [PyList (map default_value (field_list (class_mro attrs bases)))]"
proof -
  let ?fl = "field_list (class_mro attrs bases)"
  from new bo have
    "(case py_struct_new p (bo @ concat (map field_fmt ?fl)) of
        Inl e \<Rightarrow> (Inl e, h0 @ [PyList (map default_value ?fl)])
      | Inr packer \<Rightarrow>
          (Inr \<lparr>BASE_STRUCT_FORMAT = concat (map field_fmt ?fl),
                 STRUCT_FORMAT = bo @ concat (map field_fmt ?fl),
                 NAME_INDEX_MAP = AList.updates (map name ?fl) [0..<length ?fl] [],
                 DEFAULT_VALUES = length h0, PACKER = packer,
                 values_is_field = (case getattr_mro (class_mro attrs bases) ''values'' of
                                      Some (AField f) \<Rightarrow> True | _ \<Rightarrow> False)\<rparr>,
           h0 @ [PyList (map default_value ?fl)])) = (Inr cls, h1)"
    by (simp add: MetaStruct_new_eq Let_def)
  then show ?thesis
    by (auto simp: py_struct_new_fields [OF sup] compiled_def sup split: if_splits)
qed

lemma compiled_packer:
  assumes "compiled p bo fl cls"
  shows "laid 0 (s_slots (PACKER cls)) (s_size (PACKER cls))"
    and "list_all slot_ok (s_slots (PACKER cls))"
    and "map (\<lambda>(off, ft, sz). (ft, sz)) (s_slots (PACKER cls)) = map (\<lambda>f. (field_type f, field_width f)) fl"
    and "length (s_slots (PACKER cls)) = length fl"
    and "fst (whichtable bo) \<noteq> Native \<Longrightarrow> s_size (PACKER cls) = sum_list (map field_width fl)"
    and "sum_list (map field_width fl) \<le> s_size (PACKER cls)"
proof -
  from assms have pk: "s_slots (PACKER cls) = fst (layout p (fst (whichtable bo)) 0 (map field_item fl))"
    "s_size (PACKER cls) = snd (layout p (fst (whichtable bo)) 0 (map field_item fl))"
    by (simp_all add: compiled_def layout_of_def)
  show "laid 0 (s_slots (PACKER cls)) (s_size (PACKER cls))"
    unfolding pk by (rule layout_laid)
  show "list_all slot_ok (s_slots (PACKER cls))"
    unfolding pk by (rule layout_slot_ok)
  show t: "map (\<lambda>(off, ft, sz). (ft, sz)) (s_slots (PACKER cls)) = map (\<lambda>f. (field_type f, field_width f)) fl"
    unfolding pk by (rule layout_fields_types)
  from arg_cong [OF t, of length] show "length (s_slots (PACKER cls)) = length fl" by simp
  show "fst (whichtable bo) \<noteq> Native \<Longrightarrow> s_size (PACKER cls) = sum_list (map field_width fl)"
    unfolding pk using layout_fields_size_std [of "fst (whichtable bo)" p 0 fl] by simp
  show "sum_list (map field_width fl) \<le> s_size (PACKER cls)"
    unfolding pk using layout_fields_size_ge [of 0 fl p "fst (whichtable bo)"] by simp
qed



lemma py_struct_pack_length:
  assumes sl: "laid 0 (s_slots s) (s_size s)" and ok: "list_all slot_ok (s_slots s)"
    and pk: "py_struct_pack p s vs = Inr bs"
  shows "length bs = s_size s"
  using pk pack_slots_length [OF _ sl ok] by (simp add: py_struct_pack_def split: if_splits)

lemma native_iff:
  "o' \<in> set byte_orders \<Longrightarrow> fst (whichtable o') = Native \<longleftrightarrow> o' = BYTE_ORDER_NATIVE"
  by (auto simp: byte_orders_def BYTE_ORDER_NATIVE_def BYTE_ORDER_NATIVE_STD_def
      BYTE_ORDER_LITTLE_ENDIAN_def BYTE_ORDER_BIG_ENDIAN_def BYTE_ORDER_NETWORK_def)




lemma layout_of_size_ge: "sum_list (map field_width fl) \<le> snd (layout_of p bo fl)"
  unfolding layout_of_def using layout_fields_size_ge [of 0 fl p "fst (whichtable bo)"] by simp

lemma layout_of_size_std:
  "bo \<in> set byte_orders \<Longrightarrow> bo \<noteq> BYTE_ORDER_NATIVE \<Longrightarrow>
   snd (layout_of p bo fl) = sum_list (map field_width fl)"
  using layout_fields_size_std [of "fst (whichtable bo)" p 0 fl]
  by (simp add: layout_of_def native_iff)


section \<open>Round trip\<close>


section \<open>Size\<close>

text \<open>
  Claim C6, as the code has it. For a class compiled with a supported byte order, the bytes that
  \<^verbatim>\<open>pack\<close> returns are as many as \<^verbatim>\<open>__len__\<close> says (which is what \<^verbatim>\<open>sizeof()\<close> returns), whatever
  the values. That size is the sum of the declared widths of the fields in every byte order but
  the native one, where it is at least that sum (alignment adds padding).
\<close>

theorem C6_size:
  assumes new: "MetaStruct_new p attrs bases h0 = (Inr cls, h1)"
    and bo: "getattr_mro (class_mro attrs bases) ''BYTE_ORDER'' = Some (AStr bo)"
    and sup: "bo \<in> set byte_orders"
    and self: "klass self = cls"
    and pk: "pack p self h = Inr bs"
  shows "length bs = Struct_len self \<and>
         (bo \<noteq> BYTE_ORDER_NATIVE \<longrightarrow>
            Struct_len self = sum_list (map field_width (field_list (class_mro attrs bases)))) \<and>
         sum_list (map field_width (field_list (class_mro attrs bases))) \<le> Struct_len self"
proof -
  let ?fl = "field_list (class_mro attrs bases)"
  from MetaStruct_new_compiled [OF new bo sup] have c: "compiled p bo ?fl cls" by simp
  from compiled_packer(1,2) [OF c] pk self have "length bs = Struct_len self"
    by (simp add: pack_def Struct_len_def py_struct_pack_length)
  moreover from c self have "Struct_len self = snd (layout_of p bo ?fl)"
    by (simp add: compiled_def Struct_len_def)
  ultimately show ?thesis
    using layout_of_size_std [OF sup, of p ?fl] layout_of_size_ge [of ?fl p bo] by simp
qed

section \<open>Unpacking a buffer of the wrong length\<close>

text \<open>
  Claim C3, as the code has it. \<^verbatim>\<open>unpack\<close> of a buffer whose length is not the record's size
  (\<^verbatim>\<open>__len__\<close>, which \<^verbatim>\<open>sizeof()\<close> returns) raises \<^verbatim>\<open>struct.error\<close> and leaves the record and the
  store as they were; of a buffer of that length it binds \<^verbatim>\<open>self.values\<close> to a new tuple with one
  value per slot, decoded at the slot's offset with the slot's type, and slot \<open>i\<close> has the type
  and width of field \<open>i\<close>.

  \<^verbatim>\<open>unpack_endian\<close> with a supported order \<open>o'\<close> compares the length of the buffer with the
  size of the layout of the fields under \<open>o'\<close>: it succeeds, in the same way, exactly when the
  two are equal (and the layout is not too large for the machine); otherwise it raises
  \<^verbatim>\<open>struct.error\<close> and leaves the record and the store as they were. The size of the layout
  under \<open>o'\<close> is the record's size when \<open>o'\<close> is the class's own order, and when neither of the
  two orders is the native one; so in these cases a buffer of any other length is rejected.
\<close>

theorem C3_unpack_length:
  assumes new: "MetaStruct_new p attrs bases h0 = (Inr cls, h1)"
    and bo: "getattr_mro (class_mro attrs bases) ''BYTE_ORDER'' = Some (AStr bo)"
    and sup: "bo \<in> set byte_orders"
    and self: "klass self = cls"
  shows "(length bs \<noteq> Struct_len self \<longrightarrow> unpack p self bs h = (Inl StructError, self, h)) \<and>
         (length bs = Struct_len self \<longrightarrow>
            unpack p self bs h =
              (Inr (), self\<lparr>self_values := length h\<rparr>,
               h @ [PyTuple (map (\<lambda>(off, ft, sz).
                      unpack_value (is_le p (s_table (PACKER cls))) ft (take sz (drop off bs)))
                    (s_slots (PACKER cls)))])) \<and>
         map (\<lambda>(off, ft, sz). (ft, sz)) (s_slots (PACKER cls)) =
           map (\<lambda>f. (field_type f, field_width f)) (field_list (class_mro attrs bases)) \<and>
         (\<forall>o' \<in> set byte_orders.
            (length bs = snd (layout_of p o' (field_list (class_mro attrs bases))) \<and>
             snd (layout_of p o' (field_list (class_mro attrs bases))) \<le> ssize_max p \<longrightarrow>
               unpack_endian p self bs o' h =
                 (Inr (), self\<lparr>self_values := length h\<rparr>,
                  h @ [PyTuple (map (\<lambda>(off, ft, sz).
                         unpack_value (is_le p (fst (whichtable o'))) ft (take sz (drop off bs)))
                       (fst (layout_of p o' (field_list (class_mro attrs bases)))))])) \<and>
            (\<not> (length bs = snd (layout_of p o' (field_list (class_mro attrs bases))) \<and>
                snd (layout_of p o' (field_list (class_mro attrs bases))) \<le> ssize_max p) \<longrightarrow>
               unpack_endian p self bs o' h = (Inl StructError, self, h)) \<and>
            (o' = bo \<or> (o' \<noteq> BYTE_ORDER_NATIVE \<and> bo \<noteq> BYTE_ORDER_NATIVE) \<longrightarrow>
               snd (layout_of p o' (field_list (class_mro attrs bases))) = Struct_len self \<and>
               (length bs \<noteq> Struct_len self \<longrightarrow>
                  unpack_endian p self bs o' h = (Inl StructError, self, h)) \<and>
               (length bs = Struct_len self \<longrightarrow> fst (unpack_endian p self bs o' h) = Inr ())))"
proof -
  let ?fl = "field_list (class_mro attrs bases)"
  from MetaStruct_new_compiled [OF new bo sup] have c: "compiled p bo ?fl cls" by simp
  then have base: "BASE_STRUCT_FORMAT cls = concat (map field_fmt ?fl)"
    and ok: "list_all fmt_ok ?fl" and sz: "snd (layout_of p bo ?fl) \<le> ssize_max p"
    and size: "Struct_len self = snd (layout_of p bo ?fl)"
    using self by (simp_all add: compiled_def Struct_len_def)
  have 1: "length bs \<noteq> Struct_len self \<longrightarrow> unpack p self bs h = (Inl StructError, self, h)"
    by (simp add: unpack_def py_struct_unpack_def Struct_len_def)
  have 2: "length bs = Struct_len self \<longrightarrow>
            unpack p self bs h =
              (Inr (), self\<lparr>self_values := length h\<rparr>,
               h @ [PyTuple (map (\<lambda>(off, ft, sz).
                      unpack_value (is_le p (s_table (PACKER cls))) ft (take sz (drop off bs)))
                    (s_slots (PACKER cls)))])"
    using self by (simp add: unpack_def py_struct_unpack_def Struct_len_def alloc_def)
  have 3: "(length bs = snd (layout_of p o' ?fl) \<and> snd (layout_of p o' ?fl) \<le> ssize_max p \<longrightarrow>
               unpack_endian p self bs o' h =
                 (Inr (), self\<lparr>self_values := length h\<rparr>,
                  h @ [PyTuple (map (\<lambda>(off, ft, sz).
                         unpack_value (is_le p (fst (whichtable o'))) ft (take sz (drop off bs)))
                       (fst (layout_of p o' ?fl)))])) \<and>
            (\<not> (length bs = snd (layout_of p o' ?fl) \<and> snd (layout_of p o' ?fl) \<le> ssize_max p) \<longrightarrow>
               unpack_endian p self bs o' h = (Inl StructError, self, h)) \<and>
            (o' = bo \<or> (o' \<noteq> BYTE_ORDER_NATIVE \<and> bo \<noteq> BYTE_ORDER_NATIVE) \<longrightarrow>
               snd (layout_of p o' ?fl) = Struct_len self \<and>
               (length bs \<noteq> Struct_len self \<longrightarrow>
                  unpack_endian p self bs o' h = (Inl StructError, self, h)) \<and>
               (length bs = Struct_len self \<longrightarrow> fst (unpack_endian p self bs o' h) = Inr ()))"
    if o': "o' \<in> set byte_orders" for o'
  proof -
    have a: "length bs = snd (layout_of p o' ?fl) \<and> snd (layout_of p o' ?fl) \<le> ssize_max p \<longrightarrow>
               unpack_endian p self bs o' h =
                 (Inr (), self\<lparr>self_values := length h\<rparr>,
                  h @ [PyTuple (map (\<lambda>(off, ft, sz).
                         unpack_value (is_le p (fst (whichtable o'))) ft (take sz (drop off bs)))
                       (fst (layout_of p o' ?fl)))])"
      using ok self
      by (simp add: unpack_endian_def struct_unpack_def base py_struct_new_fields [OF o']
          py_struct_unpack_def alloc_def)
    have b: "\<not> (length bs = snd (layout_of p o' ?fl) \<and> snd (layout_of p o' ?fl) \<le> ssize_max p) \<longrightarrow>
               unpack_endian p self bs o' h = (Inl StructError, self, h)"
      using ok self
      by (auto simp: unpack_endian_def struct_unpack_def base py_struct_new_fields [OF o']
          py_struct_unpack_def)
    have e: "snd (layout_of p o' ?fl) = Struct_len self"
      if "o' = bo \<or> (o' \<noteq> BYTE_ORDER_NATIVE \<and> bo \<noteq> BYTE_ORDER_NATIVE)"
      using that
    proof
      assume "o' = bo"
      with size show ?thesis by simp
    next
      assume n: "o' \<noteq> BYTE_ORDER_NATIVE \<and> bo \<noteq> BYTE_ORDER_NATIVE"
      with layout_of_size_std [OF o', of p ?fl] layout_of_size_std [OF sup, of p ?fl] size
      show ?thesis by simp
    qed
    have f: "snd (layout_of p o' ?fl) = Struct_len self \<and>
               (length bs \<noteq> Struct_len self \<longrightarrow>
                  unpack_endian p self bs o' h = (Inl StructError, self, h)) \<and>
               (length bs = Struct_len self \<longrightarrow> fst (unpack_endian p self bs o' h) = Inr ())"
      if t: "o' = bo \<or> (o' \<noteq> BYTE_ORDER_NATIVE \<and> bo \<noteq> BYTE_ORDER_NATIVE)"
    proof -
      from e [OF t] size sz have le: "snd (layout_of p o' ?fl) \<le> ssize_max p" by simp
      from a b e [OF t] le show ?thesis by auto
    qed
    from a b f show ?thesis by blast
  qed
  from 1 2 3 compiled_packer(3) [OF c] show ?thesis by blast
qed

section \<open>Padding, native lengths and single precision\<close>

lemma pair_body_eval:
  "class_body [(''a'', uint8_t PyNone), (''b'', uint32_t PyNone)] [(''BYTE_ORDER'', AStr bo)] c =
     (Inr (pair_attrs bo c), c + 2)"
  by (simp add: pair_attrs_def ctor_defs)

lemma pair_native_eval:
  "MetaStruct_new x86_64 (pair_attrs BYTE_ORDER_NATIVE c) Struct_mro h =
     (Inr (pair_cls BYTE_ORDER_NATIVE 4 (length h)), h @ [PyList [PyNone, PyNone]])"
  by (simp add: pair_attrs_def pair_cls_def class_defs x86_64_def)

lemma pair_little_eval:
  "MetaStruct_new x86_64 (pair_attrs BYTE_ORDER_LITTLE_ENDIAN c) Struct_mro h =
     (Inr (pair_cls BYTE_ORDER_LITTLE_ENDIAN 1 (length h)), h @ [PyList [PyNone, PyNone]])"
  by (simp add: pair_attrs_def pair_cls_def class_defs x86_64_def)

lemma float_body_eval: "class_body [(''x'', float32_t PyNone)] [] c = (Inr (float_attrs c), c + 1)"
  by (simp add: float_attrs_def ctor_defs)


lemma int_bytes_le_numeral:
  "int_bytes_le (numeral k) v = word_of_int v # int_bytes_le (pred_numeral k) (v div 256)"
  by (simp add: numeral_eq_Suc)

lemma replicate_numeral_eval: "replicate (numeral k) x = x # replicate (pred_numeral k) x"
  by (simp add: numeral_eq_Suc)

lemmas bytes_eval = int_bytes_le_numeral replicate_numeral_eval

lemmas float_defs = float_of_double_def float_cast_def double_of_float_def double_of_int_def rne_def
  bit_length_eval

lemma native_float_class_eval:
  "MetaStruct_new x86_64 (native_float_attrs c) Struct_mro h =
     (Inr (native_float_cls (length h)), h @ [PyList [PyNone]])"
  by (simp add: native_float_attrs_def native_float_cls_def class_defs x86_64_def)

text \<open>
  A value too large for single precision: the float \<^verbatim>\<open>1e40\<close> (bit pattern
  \<^verbatim>\<open>0x483D6329F1C35CA5\<close>) is packed as an infinity in the native mode and raises
  \<^verbatim>\<open>OverflowError\<close> in a standard mode, where the integer \<^verbatim>\<open>10**40\<close> raises \<^verbatim>\<open>struct.error\<close>.
\<close>

lemma float32_overflow_eval:
  "pack x86_64 \<lparr>klass = native_float_cls 0, self_values = 1\<rparr>
     [PyList [PyNone], PyList [PyFloat 0x483D6329F1C35CA5]] = Inr [0x00, 0x00, 0x80, 0x7F]"
  "pack x86_64 \<lparr>klass = float_cls 0, self_values = 1\<rparr>
     [PyList [PyNone], PyList [PyFloat 0x483D6329F1C35CA5]] = Inl OverflowError"
  "pack x86_64 \<lparr>klass = float_cls 0, self_values = 1\<rparr>
     [PyList [PyNone], PyList [PyInt (10 ^ 40)]] = Inl StructError"
  "pack x86_64 \<lparr>klass = native_float_cls 0, self_values = 1\<rparr>
     [PyList [PyNone], PyList [PyInt (10 ^ 40)]] = Inr [0x00, 0x00, 0x80, 0x7F]"
  by (simp_all add: native_float_cls_def float_cls_def pack_defs float_defs bytes_eval x86_64_def
      bit_length.simps [of "Suc 0"])

text \<open>
  Claim C6 as stated fails in the native mode: on a machine that aligns a 32-bit integer to four
  bytes, the record type with a \<^verbatim>\<open>uint8\<close> and a \<^verbatim>\<open>uint32\<close> field packs to 8 bytes, and the declared
  widths sum to 5.
\<close>

theorem C6_native_padding:
  "MetaStruct_new x86_64 (pair_attrs BYTE_ORDER_NATIVE 0) Struct_mro [] =
     (Inr (pair_cls BYTE_ORDER_NATIVE 4 0), [PyList [PyNone, PyNone]]) \<and>
   pack x86_64 \<lparr>klass = pair_cls BYTE_ORDER_NATIVE 4 0, self_values = 1\<rparr>
     [PyList [PyNone, PyNone], PyList [PyInt 1, PyInt 2]] = Inr [1, 0, 0, 0, 2, 0, 0, 0] \<and>
   sizeof \<lparr>klass = pair_cls BYTE_ORDER_NATIVE 4 0, self_values = 1\<rparr> = 8 \<and>
   sum_list (map field_width (field_list (class_mro (pair_attrs BYTE_ORDER_NATIVE 0) Struct_mro))) = 5"
  by (simp add: pair_native_eval) (simp add: pair_cls_def pair_attrs_def pack_defs sizeof_def Struct_len_def
      class_defs field_width_def x86_64_def bytes_eval)

text \<open>
  Claim C3 as stated fails for \<^verbatim>\<open>unpack_endian\<close> with the native order: for the little-endian
  record type with a \<^verbatim>\<open>uint8\<close> and a \<^verbatim>\<open>uint32\<close> field, \<^verbatim>\<open>sizeof()\<close> is 5, and a buffer of 8 bytes
  is unpacked with the native order without an error.
\<close>

theorem C3_unpack_endian_native_length:
  "MetaStruct_new x86_64 (pair_attrs BYTE_ORDER_LITTLE_ENDIAN 0) Struct_mro [] =
     (Inr (pair_cls BYTE_ORDER_LITTLE_ENDIAN 1 0), [PyList [PyNone, PyNone]]) \<and>
   sizeof \<lparr>klass = pair_cls BYTE_ORDER_LITTLE_ENDIAN 1 0, self_values = 1\<rparr> = 5 \<and>
   unpack_endian x86_64 \<lparr>klass = pair_cls BYTE_ORDER_LITTLE_ENDIAN 1 0, self_values = 1\<rparr>
     [1, 0, 0, 0, 2, 0, 0, 0] BYTE_ORDER_NATIVE [PyList [PyNone, PyNone], PyList [PyNone, PyNone]] =
     (Inr (), \<lparr>klass = pair_cls BYTE_ORDER_LITTLE_ENDIAN 1 0, self_values = 2\<rparr>,
      [PyList [PyNone, PyNone], PyList [PyNone, PyNone], PyTuple [PyInt 1, PyInt 2]])"
  by (simp add: pair_little_eval) (simp add: pair_cls_def pack_defs sizeof_def Struct_len_def
      unpack_endian_def struct_unpack_def class_defs x86_64_def)


lemma x86_64_ssize: "9 \<le> ssize_max x86_64"
  by (simp add: x86_64_def)

lemma scenario_byte_order:
  "getattr_mro (class_mro (scenario_attrs c) Struct_mro) ''BYTE_ORDER'' = Some (AStr BYTE_ORDER_LITTLE_ENDIAN)"
  by (simp add: scenario_attrs_def class_defs)

lemma scenario_field_list:
  "field_list (class_mro (scenario_attrs c) Struct_mro) =
     [\<lparr>field_type = UINT32_T, default_value = PyInt 0, str_len = None, count = c, index = 0, name = ''id''\<rparr>,
      \<lparr>field_type = UINT8_T, default_value = PyInt 1, str_len = None, count = Suc c, index = 0, name = ''flag''\<rparr>,
      \<lparr>field_type = CHAR_T, default_value = PyBytes [110, 111, 110, 101], str_len = Some 4,
        count = Suc (Suc c), index = 0, name = ''tag''\<rparr>]"
  by (simp add: scenario_attrs_def class_defs)

lemma little_supported: "BYTE_ORDER_LITTLE_ENDIAN \<in> set byte_orders"
  and big_supported: "BYTE_ORDER_BIG_ENDIAN \<in> set byte_orders"
  and native_supported: "BYTE_ORDER_NATIVE \<in> set byte_orders"
  by (simp_all add: byte_orders_def)

section \<open>The concrete scenario\<close>

text \<open>
  Claim C9. The class body \<^verbatim>\<open>id = uint32_t(0)\<close>, \<^verbatim>\<open>flag = uint8_t(1)\<close>,
  \<^verbatim>\<open>tag = char(4, b"none")\<close> under the default little-endian order compiles to the format
  \<^verbatim>\<open><IB4s\<close> of size 9; the record constructed with \<^verbatim>\<open>id=1\<close>, \<^verbatim>\<open>flag=0\<close>, \<^verbatim>\<open>tag=b"abcd"\<close> packs
  to \<^verbatim>\<open>01 00 00 00 00 61 62 63 64\<close>, and unpacking these bytes into a record of the type gives
  the fields \<^verbatim>\<open>id = 1\<close>, \<^verbatim>\<open>flag = 0\<close>, \<^verbatim>\<open>tag = b"abcd"\<close>, on every machine whose \<^verbatim>\<open>Py_ssize_t\<close>
  holds 9.
\<close>

theorem C9_scenario:
  assumes "9 \<le> ssize_max p"
  shows "class_body scenario_body [] c = (Inr (scenario_attrs c), c + 3) \<and>
     MetaStruct_new p (scenario_attrs c) Struct_mro h =
       (Inr (scenario_cls (length h)), h @ [scenario_defaults]) \<and>
     Struct_init (scenario_cls (length h))
       [(''id'', PyInt 1), (''flag'', PyInt 0), (''tag'', PyBytes [97, 98, 99, 100])]
       (h @ [scenario_defaults]) =
       (Inr \<lparr>klass = scenario_cls (length h), self_values = Suc (length h)\<rparr>,
        h @ [scenario_defaults, PyList [PyInt 1, PyInt 0, PyBytes [97, 98, 99, 100]]]) \<and>
     pack p \<lparr>klass = scenario_cls (length h), self_values = Suc (length h)\<rparr>
       (h @ [scenario_defaults, PyList [PyInt 1, PyInt 0, PyBytes [97, 98, 99, 100]]]) =
       Inr [0x01, 0x00, 0x00, 0x00, 0x00, 0x61, 0x62, 0x63, 0x64] \<and>
     Struct_init (scenario_cls (length h)) [] (h @ [scenario_defaults]) =
       (Inr \<lparr>klass = scenario_cls (length h), self_values = Suc (length h)\<rparr>,
        h @ [scenario_defaults, scenario_defaults]) \<and>
     unpack p \<lparr>klass = scenario_cls (length h), self_values = Suc (length h)\<rparr>
       [0x01, 0x00, 0x00, 0x00, 0x00, 0x61, 0x62, 0x63, 0x64]
       (h @ [scenario_defaults, scenario_defaults]) =
       (Inr (), \<lparr>klass = scenario_cls (length h), self_values = Suc (Suc (length h))\<rparr>,
        h @ [scenario_defaults, scenario_defaults,
             PyTuple [PyInt 1, PyInt 0, PyBytes [97, 98, 99, 100]]]) \<and>
     get_field_value \<lparr>klass = scenario_cls (length h), self_values = Suc (Suc (length h))\<rparr> ''id''
       (h @ [scenario_defaults, scenario_defaults,
             PyTuple [PyInt 1, PyInt 0, PyBytes [97, 98, 99, 100]]]) = Inr (PyInt 1) \<and>
     get_field_value \<lparr>klass = scenario_cls (length h), self_values = Suc (Suc (length h))\<rparr> ''flag''
       (h @ [scenario_defaults, scenario_defaults,
             PyTuple [PyInt 1, PyInt 0, PyBytes [97, 98, 99, 100]]]) = Inr (PyInt 0) \<and>
     get_field_value \<lparr>klass = scenario_cls (length h), self_values = Suc (Suc (length h))\<rparr> ''tag''
       (h @ [scenario_defaults, scenario_defaults,
             PyTuple [PyInt 1, PyInt 0, PyBytes [97, 98, 99, 100]]]) = Inr (PyBytes [97, 98, 99, 100])"
proof -
  have 1: "class_body scenario_body [] c = (Inr (scenario_attrs c), c + 3)"
    by (rule scenario_body_eval)
  have 2: "MetaStruct_new p (scenario_attrs c) Struct_mro h =
       (Inr (scenario_cls (length h)), h @ [scenario_defaults])"
    by (rule scenario_class_eval [OF assms])
  have 3: "Struct_init (scenario_cls (length h))
       [(''id'', PyInt 1), (''flag'', PyInt 0), (''tag'', PyBytes [97, 98, 99, 100])]
       (h @ [scenario_defaults]) =
       (Inr \<lparr>klass = scenario_cls (length h), self_values = Suc (length h)\<rparr>,
        h @ [scenario_defaults, PyList [PyInt 1, PyInt 0, PyBytes [97, 98, 99, 100]]])"
    by (simp add: Struct_init_def alloc_def scenario_cls_def scenario_defaults_def AList.delete_eq
        nth_append list_update_append)
  have 4: "pack p \<lparr>klass = scenario_cls (length h), self_values = Suc (length h)\<rparr>
       (h @ [scenario_defaults, PyList [PyInt 1, PyInt 0, PyBytes [97, 98, 99, 100]]]) =
       Inr [0x01, 0x00, 0x00, 0x00, 0x00, 0x61, 0x62, 0x63, 0x64]"
    by (simp add: scenario_cls_def pack_defs bytes_eval nth_append)
  have 5: "Struct_init (scenario_cls (length h)) [] (h @ [scenario_defaults]) =
       (Inr \<lparr>klass = scenario_cls (length h), self_values = Suc (length h)\<rparr>,
        h @ [scenario_defaults, scenario_defaults])"
    by (simp add: Struct_init_def alloc_def scenario_cls_def scenario_defaults_def nth_append)
  have 6: "unpack p \<lparr>klass = scenario_cls (length h), self_values = Suc (length h)\<rparr>
       [0x01, 0x00, 0x00, 0x00, 0x00, 0x61, 0x62, 0x63, 0x64]
       (h @ [scenario_defaults, scenario_defaults]) =
       (Inr (), \<lparr>klass = scenario_cls (length h), self_values = Suc (Suc (length h))\<rparr>,
        h @ [scenario_defaults, scenario_defaults,
             PyTuple [PyInt 1, PyInt 0, PyBytes [97, 98, 99, 100]]])"
    by (simp add: scenario_cls_def pack_defs)
  have 7: "get_field_value \<lparr>klass = scenario_cls (length h), self_values = Suc (Suc (length h))\<rparr> nm
       (h @ [scenario_defaults, scenario_defaults,
             PyTuple [PyInt 1, PyInt 0, PyBytes [97, 98, 99, 100]]]) =
       (case map_of [(''id'', 0), (''flag'', 1), (''tag'', 2 :: nat)] nm of
          None \<Rightarrow> Inl (KeyError nm)
        | Some i \<Rightarrow> getitem (PyTuple [PyInt 1, PyInt 0, PyBytes [97, 98, 99, 100]]) i)" for nm
    by (simp add: get_field_value_def scenario_cls_def nth_append)
  from 1 2 3 4 5 6 show ?thesis
    by (simp add: 7 getitem_def)
qed

theorem C9_scenario_witness:
  "9 \<le> ssize_max x86_64 \<and>
   pack x86_64 \<lparr>klass = scenario_cls 0, self_values = 1\<rparr>
       [scenario_defaults, PyList [PyInt 1, PyInt 0, PyBytes [97, 98, 99, 100]]] =
       Inr [0x01, 0x00, 0x00, 0x00, 0x00, 0x61, 0x62, 0x63, 0x64] \<and>
   unpack x86_64 \<lparr>klass = scenario_cls 0, self_values = 1\<rparr>
       [0x01, 0x00, 0x00, 0x00, 0x00, 0x61, 0x62, 0x63, 0x64]
       [scenario_defaults, scenario_defaults] =
       (Inr (), \<lparr>klass = scenario_cls 0, self_values = 2\<rparr>,
        [scenario_defaults, scenario_defaults, PyTuple [PyInt 1, PyInt 0, PyBytes [97, 98, 99, 100]]])"
  using C9_scenario [OF x86_64_ssize, of 0 "[]"] x86_64_ssize by simp


theorem C6_size_witness:
  "MetaStruct_new x86_64 (scenario_attrs 0) Struct_mro [] = (Inr (scenario_cls 0), [scenario_defaults]) \<and>
   getattr_mro (class_mro (scenario_attrs 0) Struct_mro) ''BYTE_ORDER'' =
     Some (AStr BYTE_ORDER_LITTLE_ENDIAN) \<and>
   BYTE_ORDER_LITTLE_ENDIAN \<in> set byte_orders \<and>
   pack x86_64 \<lparr>klass = scenario_cls 0, self_values = 1\<rparr>
     [scenario_defaults, PyList [PyInt 1, PyInt 0, PyBytes [97, 98, 99, 100]]] =
     Inr [0x01, 0x00, 0x00, 0x00, 0x00, 0x61, 0x62, 0x63, 0x64] \<and>
   length [0x01, 0x00, 0x00, 0x00, 0x00, 0x61, 0x62, 0x63, 0x64 :: byte] =
     Struct_len \<lparr>klass = scenario_cls 0, self_values = 1\<rparr> \<and>
   Struct_len \<lparr>klass = scenario_cls 0, self_values = 1\<rparr> =
     sum_list (map field_width (field_list (class_mro (scenario_attrs 0) Struct_mro))) \<and>
   sum_list (map field_width (field_list (class_mro (scenario_attrs 0) Struct_mro))) = 9 \<and>
   MetaStruct_new x86_64 (native_float_attrs 0) Struct_mro [] =
     (Inr (native_float_cls 0), [PyList [PyNone]]) \<and>
   getattr_mro (class_mro (native_float_attrs 0) Struct_mro) ''BYTE_ORDER'' =
     Some (AStr BYTE_ORDER_NATIVE) \<and>
   BYTE_ORDER_NATIVE \<in> set byte_orders \<and>
   pack x86_64 \<lparr>klass = native_float_cls 0, self_values = 1\<rparr>
     [PyList [PyNone], PyList [PyFloat 0x483D6329F1C35CA5]] = Inr [0x00, 0x00, 0x80, 0x7F] \<and>
   length [0x00, 0x00, 0x80, 0x7F :: byte] =
     Struct_len \<lparr>klass = native_float_cls 0, self_values = 1\<rparr>"
proof -
  let ?self = "\<lparr>klass = scenario_cls 0, self_values = 1\<rparr>"
  let ?h = "[scenario_defaults, PyList [PyInt 1, PyInt 0, PyBytes [97, 98, 99, 100]]]"
  have new: "MetaStruct_new x86_64 (scenario_attrs 0) Struct_mro [] = (Inr (scenario_cls 0), [scenario_defaults])"
    using scenario_class_eval [OF x86_64_ssize, of 0 "[]"] by simp
  have bo: "getattr_mro (class_mro (scenario_attrs 0) Struct_mro) ''BYTE_ORDER'' =
     Some (AStr BYTE_ORDER_LITTLE_ENDIAN)" by (rule scenario_byte_order)
  have self: "klass ?self = scenario_cls 0" by simp
  have pk: "pack x86_64 ?self ?h = Inr [0x01, 0x00, 0x00, 0x00, 0x00, 0x61, 0x62, 0x63, 0x64]"
    by (simp add: scenario_cls_def pack_defs bytes_eval)
  have ne: "BYTE_ORDER_LITTLE_ENDIAN \<noteq> BYTE_ORDER_NATIVE"
    by (simp add: BYTE_ORDER_LITTLE_ENDIAN_def BYTE_ORDER_NATIVE_def)
  have w: "sum_list (map field_width (field_list (class_mro (scenario_attrs 0) Struct_mro))) = 9"
    by (simp add: scenario_field_list field_width_def)
  note t = C6_size [OF new bo little_supported self pk]
  from t have a: "length [0x01, 0x00, 0x00, 0x00, 0x00, 0x61, 0x62, 0x63, 0x64 :: byte] = Struct_len ?self"
    by (rule conjunct1)
  from t ne have b: "Struct_len ?self =
     sum_list (map field_width (field_list (class_mro (scenario_attrs 0) Struct_mro)))"
    by blast
  let ?nself = "\<lparr>klass = native_float_cls 0, self_values = 1\<rparr>"
  let ?nh = "[PyList [PyNone], PyList [PyFloat 0x483D6329F1C35CA5]]"
  have nnew: "MetaStruct_new x86_64 (native_float_attrs 0) Struct_mro [] =
     (Inr (native_float_cls 0), [PyList [PyNone]])"
    using native_float_class_eval [of 0 "[]"] by simp
  have nbo: "getattr_mro (class_mro (native_float_attrs 0) Struct_mro) ''BYTE_ORDER'' =
     Some (AStr BYTE_ORDER_NATIVE)"
    by (simp add: native_float_attrs_def class_defs)
  have nself: "klass ?nself = native_float_cls 0" by simp
  have npk: "pack x86_64 ?nself ?nh = Inr [0x00, 0x00, 0x80, 0x7F]"
    by (rule float32_overflow_eval(1))
  from C6_size [OF nnew nbo native_supported nself npk]
  have c: "length [0x00, 0x00, 0x80, 0x7F :: byte] = Struct_len ?nself"
    by (rule conjunct1)
  from new bo little_supported pk a b w nnew nbo native_supported npk c show ?thesis by blast
qed

theorem C3_unpack_length_witness:
  "MetaStruct_new x86_64 (scenario_attrs 0) Struct_mro [] = (Inr (scenario_cls 0), [scenario_defaults]) \<and>
   getattr_mro (class_mro (scenario_attrs 0) Struct_mro) ''BYTE_ORDER'' =
     Some (AStr BYTE_ORDER_LITTLE_ENDIAN) \<and>
   BYTE_ORDER_LITTLE_ENDIAN \<in> set byte_orders \<and>
   Struct_len \<lparr>klass = scenario_cls 0, self_values = 1\<rparr> = 9 \<and>
   unpack x86_64 \<lparr>klass = scenario_cls 0, self_values = 1\<rparr> [1, 0, 0, 0, 0]
     [scenario_defaults, scenario_defaults] =
     (Inl StructError, \<lparr>klass = scenario_cls 0, self_values = 1\<rparr>,
      [scenario_defaults, scenario_defaults]) \<and>
   unpack_endian x86_64 \<lparr>klass = scenario_cls 0, self_values = 1\<rparr> [1, 0, 0, 0, 0]
     BYTE_ORDER_BIG_ENDIAN [scenario_defaults, scenario_defaults] =
     (Inl StructError, \<lparr>klass = scenario_cls 0, self_values = 1\<rparr>,
      [scenario_defaults, scenario_defaults]) \<and>
   unpack_endian x86_64 \<lparr>klass = scenario_cls 0, self_values = 1\<rparr> [1, 0, 0, 0, 0]
     BYTE_ORDER_LITTLE_ENDIAN [scenario_defaults, scenario_defaults] =
     (Inl StructError, \<lparr>klass = scenario_cls 0, self_values = 1\<rparr>,
      [scenario_defaults, scenario_defaults]) \<and>
   unpack x86_64 \<lparr>klass = scenario_cls 0, self_values = 1\<rparr>
     [0x01, 0x00, 0x00, 0x00, 0x00, 0x61, 0x62, 0x63, 0x64]
     [scenario_defaults, scenario_defaults] =
     (Inr (), \<lparr>klass = scenario_cls 0, self_values = 2\<rparr>,
      [scenario_defaults, scenario_defaults, PyTuple [PyInt 1, PyInt 0, PyBytes [97, 98, 99, 100]]]) \<and>
   unpack_endian x86_64 \<lparr>klass = scenario_cls 0, self_values = 1\<rparr>
     [0x00, 0x00, 0x00, 0x01, 0x00, 0x61, 0x62, 0x63, 0x64] BYTE_ORDER_BIG_ENDIAN
     [scenario_defaults, scenario_defaults] =
     (Inr (), \<lparr>klass = scenario_cls 0, self_values = 2\<rparr>,
      [scenario_defaults, scenario_defaults, PyTuple [PyInt 1, PyInt 0, PyBytes [97, 98, 99, 100]]])"
proof -
  let ?self = "\<lparr>klass = scenario_cls 0, self_values = 1\<rparr>"
  let ?h = "[scenario_defaults, scenario_defaults]"
  let ?fl = "field_list (class_mro (scenario_attrs 0) Struct_mro)"
  let ?b9 = "[0x01, 0x00, 0x00, 0x00, 0x00, 0x61, 0x62, 0x63, 0x64] :: byte list"
  let ?g9 = "[0x00, 0x00, 0x00, 0x01, 0x00, 0x61, 0x62, 0x63, 0x64] :: byte list"
  have new: "MetaStruct_new x86_64 (scenario_attrs 0) Struct_mro [] = (Inr (scenario_cls 0), [scenario_defaults])"
    using scenario_class_eval [OF x86_64_ssize, of 0 "[]"] by simp
  have bo: "getattr_mro (class_mro (scenario_attrs 0) Struct_mro) ''BYTE_ORDER'' =
     Some (AStr BYTE_ORDER_LITTLE_ENDIAN)" by (rule scenario_byte_order)
  have self: "klass ?self = scenario_cls 0" by simp
  have sz: "Struct_len ?self = 9" by (simp add: Struct_len_def scenario_cls_def)
  have ne: "BYTE_ORDER_LITTLE_ENDIAN \<noteq> BYTE_ORDER_NATIVE" "BYTE_ORDER_BIG_ENDIAN \<noteq> BYTE_ORDER_NATIVE"
    by (simp_all add: BYTE_ORDER_LITTLE_ENDIAN_def BYTE_ORDER_BIG_ENDIAN_def BYTE_ORDER_NATIVE_def)
  have l5: "length [1, 0, 0, 0, 0 :: byte] \<noteq> Struct_len ?self"
    by (simp add: Struct_len_def scenario_cls_def)
  have l9: "length ?b9 = Struct_len ?self" by (simp add: Struct_len_def scenario_cls_def)
  have lay: "layout_of x86_64 BYTE_ORDER_BIG_ENDIAN ?fl =
     ([(0, UINT32_T, 4), (4, UINT8_T, 1), (5, CHAR_T, 4)], 9)"
    by (simp add: scenario_field_list layout_of_def field_item_def field_width_def align_def
        BYTE_ORDER_BIG_ENDIAN_def)
  have g9: "length ?g9 = snd (layout_of x86_64 BYTE_ORDER_BIG_ENDIAN ?fl) \<and>
            snd (layout_of x86_64 BYTE_ORDER_BIG_ENDIAN ?fl) \<le> ssize_max x86_64"
    unfolding lay by (simp add: x86_64_def)
  note t5 = C3_unpack_length [OF new bo little_supported self, of "[1, 0, 0, 0, 0]" ?h]
  note t9 = C3_unpack_length [OF new bo little_supported self, of ?b9 ?h]
  note u9 = C3_unpack_length [OF new bo little_supported self, of ?g9 ?h]
  from t5 l5 have 1: "unpack x86_64 ?self [1, 0, 0, 0, 0] ?h = (Inl StructError, ?self, ?h)"
    by blast
  from t5 l5 ne big_supported
  have 2: "unpack_endian x86_64 ?self [1, 0, 0, 0, 0] BYTE_ORDER_BIG_ENDIAN ?h = (Inl StructError, ?self, ?h)"
    by blast
  from t5 l5 little_supported
  have 3: "unpack_endian x86_64 ?self [1, 0, 0, 0, 0] BYTE_ORDER_LITTLE_ENDIAN ?h = (Inl StructError, ?self, ?h)"
    by blast
  from t9 l9 have "unpack x86_64 ?self ?b9 ?h =
      (Inr (), ?self\<lparr>self_values := length ?h\<rparr>,
       ?h @ [PyTuple (map (\<lambda>(off, ft, sz).
                unpack_value (is_le x86_64 (s_table (PACKER (scenario_cls 0)))) ft
                  (take sz (drop off ?b9)))
              (s_slots (PACKER (scenario_cls 0))))])"
    by blast
  also have "\<dots> = (Inr (), \<lparr>klass = scenario_cls 0, self_values = 2\<rparr>,
      [scenario_defaults, scenario_defaults, PyTuple [PyInt 1, PyInt 0, PyBytes [97, 98, 99, 100]]])"
    by (simp add: scenario_cls_def pack_defs)
  finally have 4: "unpack x86_64 ?self ?b9 ?h =
     (Inr (), \<lparr>klass = scenario_cls 0, self_values = 2\<rparr>,
      [scenario_defaults, scenario_defaults, PyTuple [PyInt 1, PyInt 0, PyBytes [97, 98, 99, 100]]])" .
  from u9 g9 big_supported have "unpack_endian x86_64 ?self ?g9 BYTE_ORDER_BIG_ENDIAN ?h =
      (Inr (), ?self\<lparr>self_values := length ?h\<rparr>,
       ?h @ [PyTuple (map (\<lambda>(off, ft, sz).
                unpack_value (is_le x86_64 (fst (whichtable BYTE_ORDER_BIG_ENDIAN))) ft
                  (take sz (drop off ?g9)))
              (fst (layout_of x86_64 BYTE_ORDER_BIG_ENDIAN ?fl)))])"
    by blast
  also have "\<dots> = (Inr (), \<lparr>klass = scenario_cls 0, self_values = 2\<rparr>,
      [scenario_defaults, scenario_defaults, PyTuple [PyInt 1, PyInt 0, PyBytes [97, 98, 99, 100]]])"
    unfolding lay by (simp add: pack_defs BYTE_ORDER_BIG_ENDIAN_def)
  finally have 5: "unpack_endian x86_64 ?self ?g9 BYTE_ORDER_BIG_ENDIAN ?h =
     (Inr (), \<lparr>klass = scenario_cls 0, self_values = 2\<rparr>,
      [scenario_defaults, scenario_defaults, PyTuple [PyInt 1, PyInt 0, PyBytes [97, 98, 99, 100]]])" .
  from new bo little_supported sz 1 2 3 4 5 show ?thesis by blast
qed

section \<open>Overriding a field in a subclass\<close>

lemma set_update_subset: "(k', g) \<in> set (AList.update k v al) \<Longrightarrow> (k', g) = (k, v) \<or> (k', g) \<in> set al"
  by (induction al) (auto split: if_splits)

lemma collect_fields_distinct:
  "distinct (map fst sf) \<Longrightarrow> distinct (map fst (collect_fields d sf))"
  by (induction d sf rule: collect_fields.induct) (auto simp: AList.distinct_update split: attr_value.splits)

lemma collect_fields_bound:
  "names_bound d \<Longrightarrow> \<forall>(k, g) \<in> set sf. name g = k \<Longrightarrow> \<forall>(k, g) \<in> set (collect_fields d sf). name g = k"
proof (induction d sf rule: collect_fields.induct)
  case (1 sf)
  then show ?case by simp
next
  case (2 a v rest sf)
  from "2.prems"(1) have nb: "names_bound rest" by (simp add: names_bound_def)
  show ?case
  proof (cases v)
    case (AField f)
    with "2.prems"(1) have "name f = a" by (simp add: names_bound_def)
    with "2.prems"(2) have "\<forall>(k, g) \<in> set (AList.update a f sf). name g = k"
      by (auto dest: set_update_subset)
    from "2.IH" [OF nb] this AField show ?thesis by simp
  next
    case (AStr s)
    with "2.IH" [OF nb] "2.prems"(2) show ?thesis by simp
  next
    case AOther
    with "2.IH" [OF nb] "2.prems"(2) show ?thesis by simp
  qed
qed

lemma collect_fields_notin:
  "a \<notin> fst ` set d \<Longrightarrow> map_of (collect_fields d sf) a = map_of sf a"
  by (induction d sf rule: collect_fields.induct) (auto simp: AList.update_conv' split: attr_value.splits)

lemma collect_fields_map_of:
  "distinct (map fst d) \<Longrightarrow>
   map_of (collect_fields d sf) k = (case map_of d k of Some (AField f) \<Rightarrow> Some f | _ \<Rightarrow> map_of sf k)"
proof (induction d sf rule: collect_fields.induct)
  case (1 sf)
  then show ?case by simp
next
  case (2 a v rest sf)
  from "2.prems" have n: "a \<notin> fst ` set rest" and d: "distinct (map fst rest)" by auto
  show ?case
  proof (cases "k = a")
    case True
    with collect_fields_notin [OF n] show ?thesis
      by (simp add: AList.update_conv' split: attr_value.splits)
  next
    case False
    with "2.IH" [OF d] show ?thesis
      by (simp add: AList.update_conv' split: attr_value.splits option.splits)
  qed
qed

lemma struct_fields_Cons: "struct_fields (d # ds) = collect_fields d (struct_fields ds)"
  by (simp add: struct_fields_def)

lemma struct_fields_field_of:
  "list_all (\<lambda>d. distinct (map fst d)) mro \<Longrightarrow> map_of (struct_fields mro) k = field_of mro k"
proof (induction mro)
  case Nil
  then show ?case by (simp add: struct_fields_def)
next
  case (Cons d ds)
  then show ?case
    by (simp add: struct_fields_Cons collect_fields_map_of split: option.splits attr_value.splits)
qed

lemma struct_fields_props:
  "\<forall>d \<in> set ds. names_bound d \<Longrightarrow>
   distinct (map fst (struct_fields ds)) \<and> (\<forall>(k, g) \<in> set (struct_fields ds). name g = k)"
proof (induction ds)
  case Nil
  then show ?case by (simp add: struct_fields_def)
next
  case (Cons d ds)
  then show ?case
    using collect_fields_bound [of d "struct_fields ds"]
    by (simp add: struct_fields_Cons collect_fields_distinct)
qed

lemma field_entries_mem: "(k, f) \<in> set (field_entries d) \<longleftrightarrow> (k, AField f) \<in> set d"
  by (induction d rule: field_entries.induct) (auto split: attr_value.splits)

lemma collect_fields_entries: "set (collect_fields d sf) \<subseteq> set (field_entries d) \<union> set sf"
proof (induction d sf rule: collect_fields.induct)
  case (1 sf)
  then show ?case by simp
next
  case (2 a v rest sf)
  show ?case
  proof (cases v)
    case (AField f)
    have "set (AList.update a f sf) \<subseteq> insert (a, f) (set sf)"
      by (auto dest: set_update_subset)
    with "2.IH" AField show ?thesis by auto
  next
    case (AStr x)
    with "2.IH" show ?thesis by auto
  next
    case AOther
    with "2.IH" show ?thesis by auto
  qed
qed

lemma struct_fields_entries: "set (struct_fields mro) \<subseteq> set (concat (map field_entries mro))"
proof (induction mro)
  case Nil
  then show ?case by (simp add: struct_fields_def)
next
  case (Cons d ds)
  with collect_fields_entries [of d "struct_fields ds"] show ?case
    by (auto simp: struct_fields_Cons)
qed

lemma bound_name_own:
  assumes d: "distinct (map (\<lambda>(k, g). count g) (field_entries attrs))"
    and m: "(a, AField f) \<in> set attrs"
  shows "bound_name attrs f = f\<lparr>name := a\<rparr>"
proof -
  define xs where "xs = filter (\<lambda>(a, v). case v of AField g \<Rightarrow> count g = count f | _ \<Rightarrow> False) attrs"
  from m have "(a, AField f) \<in> set xs" by (simp add: xs_def)
  then have ne: "xs \<noteq> []" by auto
  then have "last xs \<in> set xs" by simp
  then obtain a' g where l: "last xs = (a', AField g)" and g: "(a', AField g) \<in> set attrs"
    and c: "count g = count f"
    by (auto simp: xs_def split: attr_value.splits)
  from d have inj: "inj_on (\<lambda>(k, g). count g) (set (field_entries attrs))"
    by (simp add: distinct_map)
  from g m have "(a', g) \<in> set (field_entries attrs)" "(a, f) \<in> set (field_entries attrs)"
    by (simp_all add: field_entries_mem)
  from inj_onD [OF inj _ this] c have "(a', g) = (a, f)" by simp
  with l have "fst (last xs) = a" by simp
  with ne show ?thesis
    by (cases xs) (simp_all add: bound_name_def xs_def [symmetric])
qed

lemma bound_name_other:
  assumes "count f \<notin> (\<lambda>(k, g). count g) ` set (field_entries attrs)"
  shows "bound_name attrs f = f"
proof -
  have "filter (\<lambda>(a, v). case v of AField g \<Rightarrow> count g = count f | _ \<Rightarrow> False) attrs = []"
  proof (rule ccontr)
    assume "filter (\<lambda>(a, v). case v of AField g \<Rightarrow> count g = count f | _ \<Rightarrow> False) attrs \<noteq> []"
    then obtain x where x: "x \<in> set attrs"
      "(\<lambda>(a, v). case v of AField g \<Rightarrow> count g = count f | _ \<Rightarrow> False) x"
      by (auto simp: filter_empty_conv)
    obtain a v where xa: "x = (a, v)" by (cases x)
    from x(2) xa obtain g where v: "v = AField g" and c: "count g = count f"
      by (cases v) simp_all
    from x(1) xa v have "(a, g) \<in> set (field_entries attrs)" by (simp add: field_entries_mem)
    then have "(\<lambda>(k, g). count g) (a, g) \<in> (\<lambda>(k, g). count g) ` set (field_entries attrs)"
      by (rule imageI)
    with c assms show False by simp
  qed
  then show ?thesis by (simp add: bound_name_def)
qed

lemma set_names_own:
  assumes "distinct (map (\<lambda>(k, g). count g) (field_entries attrs))"
  shows "set_names attrs attrs = own_names attrs"
  unfolding set_names_def own_names_def
  by (rule map_cong [OF refl]) (auto simp: bound_name_own [OF assms] split: attr_value.splits)

lemma set_names_base:
  assumes "\<forall>(k, g) \<in> set (field_entries d). count g \<notin> (\<lambda>(k, g). count g) ` set (field_entries attrs)"
  shows "set_names attrs d = d"
proof -
  have "(\<lambda>(a, v). (a, case v of AField f \<Rightarrow> AField (bound_name attrs f) | _ \<Rightarrow> v)) x = x"
    if "x \<in> set d" for x
  proof (cases x)
    case (Pair a v)
    show ?thesis
    proof (cases v)
      case (AField f)
      with Pair that have "(a, f) \<in> set (field_entries d)" by (simp add: field_entries_mem)
      with assms have "case (a, f) of (k, g) \<Rightarrow>
          count g \<notin> (\<lambda>(k, g). count g) ` set (field_entries attrs)"
        by (rule bspec)
      then have "count f \<notin> (\<lambda>(k, g). count g) ` set (field_entries attrs)" by simp
      from bound_name_other [OF this] Pair AField show ?thesis by simp
    qed (simp_all add: Pair)
  qed
  then show ?thesis unfolding set_names_def by (simp add: map_idI)
qed

lemma class_mro_once:
  assumes "distinct (map (\<lambda>(k, g). count g) (concat (map field_entries (attrs # bases))))"
  shows "class_mro attrs bases = own_names attrs # bases"
proof -
  from assms have d: "distinct (map (\<lambda>(k, g). count g) (field_entries attrs))"
    and dis: "(\<lambda>(k, g). count g) ` set (field_entries attrs) \<inter>
              (\<lambda>(k, g). count g) ` set (concat (map field_entries bases)) = {}"
    by auto
  have "set_names attrs b = b" if b: "b \<in> set bases" for b
  proof (rule set_names_base, rule ballI)
    fix x assume x: "x \<in> set (field_entries b)"
    obtain k g where xk: "x = (k, g)" by (cases x)
    from x b have "x \<in> set (concat (map field_entries bases))" by auto
    then have "(\<lambda>(k, g). count g) x \<in> (\<lambda>(k, g). count g) ` set (concat (map field_entries bases))"
      by (rule imageI)
    with dis have "(\<lambda>(k, g). count g) x \<notin> (\<lambda>(k, g). count g) ` set (field_entries attrs)"
      by blast
    then show "case x of (k, g) \<Rightarrow> count g \<notin> (\<lambda>(k, g). count g) ` set (field_entries attrs)"
      by (simp add: xk)
  qed
  then have "map (set_names attrs) bases = bases" by (simp add: map_idI)
  with set_names_own [OF d] show ?thesis by (simp add: class_mro_def)
qed

lemma names_bound_own_names: "names_bound (own_names attrs)"
  by (induction attrs) (auto simp: names_bound_def own_names_def split: attr_value.splits)

lemma map_fst_own_names: "map fst (own_names attrs) = map fst attrs"
  by (induction attrs) (auto simp: own_names_def)

lemma map_of_own_names:
  "map_of (own_names attrs) a =
     map_option (\<lambda>v. case v of AField f \<Rightarrow> AField (f\<lparr>name := a\<rparr>) | _ \<Rightarrow> v) (map_of attrs a)"
  by (induction attrs) (auto simp: own_names_def split: attr_value.splits)

lemma field_entries_own_names:
  "map (\<lambda>(k, g). count g) (field_entries (own_names attrs)) = map (\<lambda>(k, g). count g) (field_entries attrs)"
  by (induction attrs rule: field_entries.induct) (auto simp: own_names_def split: attr_value.splits)

lemma field_of_bound:
  "list_all names_bound ds \<Longrightarrow> field_of ds k = Some g \<Longrightarrow> name g = k"
proof (induction ds)
  case Nil
  then show ?case by simp
next
  case (Cons d ds)
  show ?case
  proof (cases "\<exists>f. map_of d k = Some (AField f)")
    case True
    with Cons.prems have "map_of d k = Some (AField g)" by auto
    then have "(k, AField g) \<in> set d" by (rule map_of_SomeD)
    with Cons.prems(1) show ?thesis by (auto simp: names_bound_def list_all_iff)
  next
    case False
    with Cons.prems have "field_of ds k = Some g"
      by (auto split: option.splits attr_value.splits)
    with Cons show ?thesis by simp
  qed
qed

lemma field_of_own_names:
  assumes "list_all names_bound bases"
  shows "field_of (own_names attrs # bases) k = map_option (\<lambda>g. g\<lparr>name := k\<rparr>) (field_of (attrs # bases) k)"
proof (cases "field_of bases k")
  case None
  then show ?thesis
    by (simp add: map_of_own_names split: option.splits attr_value.splits)
next
  case (Some g)
  from field_of_bound [OF assms Some] have "g\<lparr>name := k\<rparr> = g" by simp
  with Some show ?thesis
    by (simp add: map_of_own_names split: option.splits attr_value.splits)
qed


lemma struct_fields_distinct: "distinct (map fst (struct_fields mro))"
  by (induction mro) (simp_all add: struct_fields_def [of "[]"] struct_fields_Cons collect_fields_distinct)

lemma updates_notin:
  "k \<notin> set ks \<Longrightarrow> map_of (AList.updates ks vs al) k = map_of al k"
  by (simp add: AList.updates_conv')

lemma updates_Cons:
  "AList.updates (x # ks) (v # vs) al = AList.updates ks vs (AList.update x v al)"
  by (simp add: AList.updates_def)

lemma updates_nth:
  "distinct ks \<Longrightarrow> i < length ks \<Longrightarrow>
   map_of (AList.updates ks [k..<k + length ks] al) (ks ! i) = Some (k + i)"
proof (induction ks arbitrary: k al i)
  case Nil
  then show ?case by simp
next
  case (Cons x ks)
  have u: "[k..<k + length (x # ks)] = k # [Suc k..<Suc k + length ks]"
    by (subst upt_rec) simp
  show ?case
  proof (cases i)
    case 0
    with Cons.prems show ?thesis
      by (simp only: u updates_Cons) (simp add: updates_notin AList.update_conv')
  next
    case (Suc j)
    with Cons.prems Cons.IH [of j "Suc k" "AList.update x k al"] show ?thesis
      by (simp only: u updates_Cons) simp
  qed
qed

lemma field_list_props:
  assumes "\<forall>d \<in> set mro. names_bound d"
  shows "set (field_list mro) = snd ` set (struct_fields mro)"
    and "sorted (map count (field_list mro))"
    and "distinct (map name (field_list mro))"
    and "name ` set (field_list mro) = fst ` set (struct_fields mro)"
proof -
  let ?sf = "struct_fields mro"
  from struct_fields_props [OF assms] have d: "distinct (map fst ?sf)"
    and b: "\<forall>(k, g) \<in> set ?sf. name g = k" by auto
  show s: "set (field_list mro) = snd ` set ?sf" by (simp add: field_list_def)
  show "sorted (map count (field_list mro))" by (simp add: field_list_def)
  define gs where "gs = map snd ?sf"
  from b have e: "map name gs = map fst ?sf" by (auto simp: gs_def)
  have "distinct (map name gs)" unfolding e by (rule d)
  then have "distinct gs" "inj_on name (set gs)"
    by (simp_all add: distinct_map)
  moreover have "field_list mro = sort_key count gs" by (simp add: field_list_def gs_def)
  ultimately show "distinct (map name (field_list mro))"
    by (simp add: distinct_map)
  from arg_cong [OF e, of set] show "name ` set (field_list mro) = fst ` set ?sf"
    by (simp add: s gs_def image_image)
qed

lemma field_list_counts:
  assumes "distinct (map (\<lambda>(k, g). count g) (concat (map field_entries mro)))"
  shows "sorted_wrt (<) (map count (field_list mro))"
proof -
  let ?sf = "struct_fields mro"
  define gs where "gs = map snd ?sf"
  from assms have "inj_on (\<lambda>(k, g). count g) (set (concat (map field_entries mro)))"
    by (simp add: distinct_map)
  with struct_fields_entries [of mro] have inj: "inj_on (\<lambda>(k, g). count g) (set ?sf)"
    by (rule inj_on_subset [rotated])
  from struct_fields_distinct [of mro] have "distinct ?sf" by (simp add: distinct_map)
  with inj have "distinct (map (\<lambda>(k, g). count g) ?sf)" by (simp add: distinct_map)
  moreover have "map (\<lambda>(k, g). count g) ?sf = map count gs" by (simp add: gs_def split_beta)
  ultimately have "distinct (map count gs)" by simp
  then have "distinct gs" "inj_on count (set gs)" by (simp_all add: distinct_map)
  then have "distinct (map count (sort_key count gs))" by (simp add: distinct_map)
  moreover have "sorted (map count (sort_key count gs))" by simp
  ultimately show ?thesis by (simp add: field_list_def gs_def strict_sorted_iff)
qed

lemma MetaStruct_new_Inr:
  assumes "MetaStruct_new p attrs bases h0 = (Inr cls, h1)"
  shows "NAME_INDEX_MAP cls = AList.updates (map name (field_list (class_mro attrs bases)))
           [0..<length (field_list (class_mro attrs bases))] []"
    and "DEFAULT_VALUES cls = length h0"
    and "h1 = h0 @ [PyList (map default_value (field_list (class_mro attrs bases)))]"
  using assms
  by (auto simp: MetaStruct_new_eq Let_def split: sum.splits option.splits attr_value.splits)

text \<open>
  Claim C2, as the code has it. Take a class whose body and whose bases bind every descriptor
  object once (no object under two names or in two classes), the descriptors of the bases
  carrying their names. \<open>field_of\<close> gives, for a name, the descriptor of the most derived class
  that binds the name to a descriptor: the one of the body when the body declares the name,
  whether or not an ancestor declares it too, and the ancestor's own when the body does not. The
  compiled class has exactly one field for every such name and none for any other name: the
  name-index map sends the name to one position \<open>i\<close>, the field at \<open>i\<close> is that descriptor
  (bound to the name), the default at \<open>i\<close> is its default, slot \<open>i\<close> of the packer has its type
  and its width, and no other position carries the name. The format is that of the fields in
  their order, and the order is that of the declaration counters of the descriptors that
  remain, strictly increasing: a field that the body redeclares stands where the count of the
  new descriptor puts it among the other fields, not where the ancestor's descriptor stood.
\<close>

theorem C2_override_position:
  assumes new: "MetaStruct_new p attrs bases h0 = (Inr cls, h1)"
    and bo: "getattr_mro (class_mro attrs bases) ''BYTE_ORDER'' = Some (AStr bo)"
    and sup: "bo \<in> set byte_orders"
    and dist: "list_all (\<lambda>d. distinct (map fst d)) (attrs # bases)"
    and once: "distinct (map (\<lambda>(k, g). count g) (concat (map field_entries (attrs # bases))))"
    and bound: "list_all names_bound bases"
  shows "(\<forall>k g. field_of (attrs # bases) k = Some g \<longrightarrow>
           (\<exists>i < length (field_list (class_mro attrs bases)).
              map_of (NAME_INDEX_MAP cls) k = Some i \<and>
              field_list (class_mro attrs bases) ! i = g\<lparr>name := k\<rparr> \<and>
              items (h1 ! DEFAULT_VALUES cls) ! i = default_value g \<and>
              (\<exists>off. s_slots (PACKER cls) ! i = (off, field_type g, field_width g)) \<and>
              (\<forall>j < length (field_list (class_mro attrs bases)).
                 j \<noteq> i \<longrightarrow> name (field_list (class_mro attrs bases) ! j) \<noteq> k))) \<and>
         (\<forall>k. field_of (attrs # bases) k = None \<longrightarrow> map_of (NAME_INDEX_MAP cls) k = None) \<and>
         length (s_slots (PACKER cls)) = length (field_list (class_mro attrs bases)) \<and>
         BASE_STRUCT_FORMAT cls = concat (map field_fmt (field_list (class_mro attrs bases))) \<and>
         sorted_wrt (<) (map count (field_list (class_mro attrs bases)))"
proof -
  let ?mro = "class_mro attrs bases"
  let ?fl = "field_list ?mro"
  have mro: "?mro = own_names attrs # bases" by (rule class_mro_once [OF once])
  from bound have nb: "\<forall>d \<in> set ?mro. names_bound d"
    by (simp add: mro names_bound_own_names list_all_iff)
  note fl = field_list_props [OF nb]
  from dist have dk: "list_all (\<lambda>d. distinct (map fst d)) ?mro"
    by (simp add: mro map_fst_own_names)
  have fo: "map_of (struct_fields ?mro) k = map_option (\<lambda>g. g\<lparr>name := k\<rparr>) (field_of (attrs # bases) k)" for k
    using struct_fields_field_of [OF dk, of k] field_of_own_names [OF bound, of attrs k]
    by (simp add: mro)
  from MetaStruct_new_compiled [OF new bo sup] have c: "compiled p bo ?fl cls" by simp
  note pk = compiled_packer(3,4) [OF c]
  from c have base: "BASE_STRUCT_FORMAT cls = concat (map field_fmt ?fl)" by (simp add: compiled_def)
  from MetaStruct_new_Inr [OF new] have nim: "NAME_INDEX_MAP cls = AList.updates (map name ?fl) [0..<length ?fl] []"
    and dv: "DEFAULT_VALUES cls = length h0" and h1: "h1 = h0 @ [PyList (map default_value ?fl)]"
    by simp_all
  have 1: "\<exists>i < length ?fl.
              map_of (NAME_INDEX_MAP cls) k = Some i \<and>
              ?fl ! i = g\<lparr>name := k\<rparr> \<and>
              items (h1 ! DEFAULT_VALUES cls) ! i = default_value g \<and>
              (\<exists>off. s_slots (PACKER cls) ! i = (off, field_type g, field_width g)) \<and>
              (\<forall>j < length ?fl. j \<noteq> i \<longrightarrow> name (?fl ! j) \<noteq> k)"
    if g: "field_of (attrs # bases) k = Some g" for k g
  proof -
    let ?g = "g\<lparr>name := k\<rparr>"
    from fo [of k] g have "map_of (struct_fields ?mro) k = Some ?g" by simp
    then have "(k, ?g) \<in> set (struct_fields ?mro)" by (rule map_of_SomeD)
    then have "?g \<in> set ?fl" by (force simp: fl(1))
    then obtain i where i: "i < length ?fl" "?fl ! i = ?g" by (auto simp: in_set_conv_nth)
    from updates_nth [OF fl(3), of i 0 "[]"] i have a: "map_of (NAME_INDEX_MAP cls) k = Some i"
      by (simp add: nim)
    from i have b: "items (h1 ! DEFAULT_VALUES cls) ! i = default_value g" by (simp add: dv h1)
    have "(\<lambda>(off, ft, sz). (ft, sz)) (s_slots (PACKER cls) ! i) =
            map (\<lambda>(off, ft, sz). (ft, sz)) (s_slots (PACKER cls)) ! i"
      using i pk(2) by simp
    also have "\<dots> = map (\<lambda>f. (field_type f, field_width f)) ?fl ! i" by (simp only: pk(1))
    also have "\<dots> = (field_type g, field_width g)" using i by (simp add: field_width_def)
    finally have "\<exists>off. s_slots (PACKER cls) ! i = (off, field_type g, field_width g)"
      by (cases "s_slots (PACKER cls) ! i") simp
    moreover have "name (?fl ! j) \<noteq> k" if "j < length ?fl" "j \<noteq> i" for j
    proof
      assume "name (?fl ! j) = k"
      with i that have "map name ?fl ! j = map name ?fl ! i" by simp
      moreover from fl(3) i that have "map name ?fl ! j \<noteq> map name ?fl ! i"
        by (simp only: distinct_conv_nth length_map) blast
      ultimately show False by simp
    qed
    ultimately show ?thesis using i a b by blast
  qed
  have 2: "map_of (NAME_INDEX_MAP cls) k = None" if "field_of (attrs # bases) k = None" for k
  proof -
    from fo [of k] that have "map_of (struct_fields ?mro) k = None" by simp
    then have "k \<notin> fst ` set (struct_fields ?mro)" by (simp add: map_of_eq_None_iff)
    with fl(4) have "k \<notin> set (map name ?fl)" by simp
    from updates_notin [OF this, of "[0..<length ?fl]" "[]"] show ?thesis by (simp add: nim)
  qed
  have "map (\<lambda>(k, g). count g) (concat (map field_entries ?mro)) =
        map (\<lambda>(k, g). count g) (concat (map field_entries (attrs # bases)))"
    by (simp add: mro field_entries_own_names)
  with once have "distinct (map (\<lambda>(k, g). count g) (concat (map field_entries ?mro)))" by simp
  from field_list_counts [OF this] have 3: "sorted_wrt (<) (map count ?fl)" .
  from 1 2 3 pk(2) base show ?thesis by blast
qed


lemma base_body_eval:
  "class_body [(''a'', uint8_t PyNone), (''b'', uint16_t PyNone)] [] c = (Inr (base_attrs c), c + 2)"
  by (simp add: base_attrs_def ctor_defs)

lemma derived_body_eval:
  "class_body [(''a'', uint32_t (PyInt 7))] [] c = (Inr (derived_attrs c), c + 1)"
  by (simp add: derived_attrs_def ctor_defs)

lemma alias_body_eval:
  "(case uint8_t (PyInt 3) c of
      (Inl e, c') \<Rightarrow> (Inl e, c')
    | (Inr f, c') \<Rightarrow> (Inr (AList.update ''b'' (AField f) (AList.update ''a'' (AField f) [])), c')) =
   (Inr (alias_attrs c), c + 1)"
  by (simp add: alias_attrs_def ctor_defs)

lemma base_class_eval:
  "MetaStruct_new x86_64 (base_attrs 0) Struct_mro h = (Inr (base_cls (length h)), h @ [PyList [PyNone, PyNone]])"
  by (simp add: base_attrs_def base_cls_def class_defs x86_64_def)

lemma base_mro_eval:
  "class_mro (base_attrs 0) Struct_mro =
     [[(''a'', AField \<lparr>field_type = UINT8_T, default_value = PyNone, str_len = None, count = 0, index = 0, name = ''a''\<rparr>),
       (''b'', AField \<lparr>field_type = UINT16_T, default_value = PyNone, str_len = None, count = 1, index = 0, name = ''b''\<rparr>)],
      Struct_dict, []]"
  by (simp add: base_attrs_def class_mro_def set_names_def bound_name_def Struct_mro_def Struct_dict_def)

lemma derived_class_eval:
  "MetaStruct_new x86_64 (derived_attrs 2) (class_mro (base_attrs 0) Struct_mro) h =
     (Inr (derived_cls (length h)), h @ [PyList [PyNone, PyInt 7]])"
  unfolding base_mro_eval
  by (simp add: derived_attrs_def derived_cls_def class_defs x86_64_def)

lemma alias_class_eval:
  "MetaStruct_new x86_64 (alias_attrs 2) (class_mro (base_attrs 0) Struct_mro) h =
     (Inr (alias_cls (length h)), h @ [PyList [PyInt 3, PyInt 3]])"
  unfolding base_mro_eval
  by (simp add: alias_attrs_def alias_cls_def class_defs x86_64_def)

text \<open>
  Claim C2 as stated keeps the overridden field at its original position. In the base class \<open>a\<close>
  is at position 0 and \<open>b\<close> at position 1; in the derived class, which redeclares \<open>a\<close>, \<open>b\<close> is at
  position 0 and \<open>a\<close> at position 1. And in the class derived from the same base with the body
  \<^verbatim>\<open>a = b = uint8_t(3)\<close>, one descriptor object under two names, the redeclared name \<open>a\<close> has
  no position at all: both slots belong to the object, whose name is \<open>b\<close>.
\<close>

theorem C2_override_moves_field:
  "MetaStruct_new x86_64 (base_attrs 0) Struct_mro [] = (Inr (base_cls 0), [PyList [PyNone, PyNone]]) \<and>
   NAME_INDEX_MAP (base_cls 0) = [(''a'', 0), (''b'', 1)] \<and>
   MetaStruct_new x86_64 (derived_attrs 2) (class_mro (base_attrs 0) Struct_mro)
     [PyList [PyNone, PyNone]] =
     (Inr (derived_cls 1), [PyList [PyNone, PyNone], PyList [PyNone, PyInt 7]]) \<and>
   NAME_INDEX_MAP (derived_cls 1) = [(''b'', 0), (''a'', 1)] \<and>
   MetaStruct_new x86_64 (alias_attrs 2) (class_mro (base_attrs 0) Struct_mro)
     [PyList [PyNone, PyNone]] =
     (Inr (alias_cls 1), [PyList [PyNone, PyNone], PyList [PyInt 3, PyInt 3]]) \<and>
   NAME_INDEX_MAP (alias_cls 1) = [(''b'', 1)]"
  using base_class_eval [of "[]"] derived_class_eval [of "[PyList [PyNone, PyNone]]"]
    alias_class_eval [of "[PyList [PyNone, PyNone]]"]
  by (simp add: base_cls_def derived_cls_def alias_cls_def)


theorem C2_override_position_witness:
  "MetaStruct_new x86_64 (derived_attrs 2) (class_mro (base_attrs 0) Struct_mro)
     [PyList [PyNone, PyNone]] =
     (Inr (derived_cls 1), [PyList [PyNone, PyNone], PyList [PyNone, PyInt 7]]) \<and>
   getattr_mro (class_mro (derived_attrs 2) (class_mro (base_attrs 0) Struct_mro)) ''BYTE_ORDER'' =
     Some (AStr BYTE_ORDER_LITTLE_ENDIAN) \<and>
   BYTE_ORDER_LITTLE_ENDIAN \<in> set byte_orders \<and>
   list_all (\<lambda>d. distinct (map fst d)) (derived_attrs 2 # class_mro (base_attrs 0) Struct_mro) \<and>
   distinct (map (\<lambda>(k, g). count g)
     (concat (map field_entries (derived_attrs 2 # class_mro (base_attrs 0) Struct_mro)))) \<and>
   list_all names_bound (class_mro (base_attrs 0) Struct_mro) \<and>
   field_of (derived_attrs 2 # class_mro (base_attrs 0) Struct_mro) ''a'' =
     Some \<lparr>field_type = UINT32_T, default_value = PyInt 7, str_len = None, count = 2,
           index = 0, name = []\<rparr> \<and>
   field_of (derived_attrs 2 # class_mro (base_attrs 0) Struct_mro) ''b'' =
     Some \<lparr>field_type = UINT16_T, default_value = PyNone, str_len = None, count = 1,
           index = 0, name = ''b''\<rparr> \<and>
   field_of (derived_attrs 2 # class_mro (base_attrs 0) Struct_mro) ''c'' = None \<and>
   map_of (NAME_INDEX_MAP (derived_cls 1)) ''a'' = Some 1 \<and>
   map_of (NAME_INDEX_MAP (derived_cls 1)) ''b'' = Some 0 \<and>
   map_of (NAME_INDEX_MAP (derived_cls 1)) ''c'' = None \<and>
   field_list (class_mro (derived_attrs 2) (class_mro (base_attrs 0) Struct_mro)) ! 1 =
     \<lparr>field_type = UINT32_T, default_value = PyInt 7, str_len = None, count = 2,
      index = 0, name = ''a''\<rparr> \<and>
   field_list (class_mro (derived_attrs 2) (class_mro (base_attrs 0) Struct_mro)) ! 0 =
     \<lparr>field_type = UINT16_T, default_value = PyNone, str_len = None, count = 1,
      index = 0, name = ''b''\<rparr> \<and>
   (\<exists>off. s_slots (PACKER (derived_cls 1)) ! 1 = (off, UINT32_T, 4)) \<and>
   (\<exists>off. s_slots (PACKER (derived_cls 1)) ! 0 = (off, UINT16_T, 2)) \<and>
   BASE_STRUCT_FORMAT (derived_cls 1) = ''HI'' \<and>
   sorted_wrt (<) (map count
     (field_list (class_mro (derived_attrs 2) (class_mro (base_attrs 0) Struct_mro))))"
proof -
  let ?fa = "\<lparr>field_type = UINT32_T, default_value = PyInt 7, str_len = None, count = 2,
             index = 0, name = []\<rparr>"
  let ?fb = "\<lparr>field_type = UINT16_T, default_value = PyNone, str_len = None, count = 1,
             index = 0, name = ''b''\<rparr>"
  let ?bases = "class_mro (base_attrs 0) Struct_mro"
  let ?fl = "field_list (class_mro (derived_attrs 2) ?bases)"
  let ?h1 = "[PyList [PyNone, PyNone], PyList [PyNone, PyInt 7]]"
  have new: "MetaStruct_new x86_64 (derived_attrs 2) ?bases [PyList [PyNone, PyNone]] =
     (Inr (derived_cls 1), ?h1)"
    using derived_class_eval [of "[PyList [PyNone, PyNone]]"] by simp
  have bo: "getattr_mro (class_mro (derived_attrs 2) ?bases) ''BYTE_ORDER'' =
     Some (AStr BYTE_ORDER_LITTLE_ENDIAN)"
    unfolding base_mro_eval by (simp add: derived_attrs_def class_defs)
  have dist: "list_all (\<lambda>d. distinct (map fst d)) (derived_attrs 2 # ?bases)"
    unfolding base_mro_eval by (simp add: derived_attrs_def Struct_dict_def)
  have once: "distinct (map (\<lambda>(k, g). count g) (concat (map field_entries (derived_attrs 2 # ?bases))))"
    unfolding base_mro_eval by (simp add: derived_attrs_def Struct_dict_def)
  have bound: "list_all names_bound ?bases"
    unfolding base_mro_eval by (simp add: names_bound_def Struct_dict_def)
  have fa: "field_of (derived_attrs 2 # ?bases) ''a'' = Some ?fa"
    unfolding base_mro_eval by (simp add: derived_attrs_def)
  have fb: "field_of (derived_attrs 2 # ?bases) ''b'' = Some ?fb"
    unfolding base_mro_eval by (simp add: derived_attrs_def)
  have fc: "field_of (derived_attrs 2 # ?bases) ''c'' = None"
    unfolding base_mro_eval by (simp add: derived_attrs_def Struct_dict_def)
  have na: "map_of (NAME_INDEX_MAP (derived_cls 1)) ''a'' = Some 1"
    and nb: "map_of (NAME_INDEX_MAP (derived_cls 1)) ''b'' = Some 0"
    by (simp_all add: derived_cls_def)
  note t = C2_override_position [OF new bo little_supported dist once bound]
  from t have t1: "\<forall>k g. field_of (derived_attrs 2 # ?bases) k = Some g \<longrightarrow>
           (\<exists>i < length ?fl.
              map_of (NAME_INDEX_MAP (derived_cls 1)) k = Some i \<and>
              ?fl ! i = g\<lparr>name := k\<rparr> \<and>
              items (?h1 ! DEFAULT_VALUES (derived_cls 1)) ! i = default_value g \<and>
              (\<exists>off. s_slots (PACKER (derived_cls 1)) ! i = (off, field_type g, field_width g)) \<and>
              (\<forall>j < length ?fl. j \<noteq> i \<longrightarrow> name (?fl ! j) \<noteq> k))"
    by (rule conjunct1)
  from t have t2: "\<forall>k. field_of (derived_attrs 2 # ?bases) k = None \<longrightarrow>
      map_of (NAME_INDEX_MAP (derived_cls 1)) k = None"
    by (rule conjunct2 [THEN conjunct1])
  from t have t4: "BASE_STRUCT_FORMAT (derived_cls 1) = concat (map field_fmt ?fl)"
    by (rule conjunct2 [THEN conjunct2, THEN conjunct2, THEN conjunct1])
  from t have t5: "sorted_wrt (<) (map count ?fl)"
    by (rule conjunct2 [THEN conjunct2, THEN conjunct2, THEN conjunct2])
  from t1 fa obtain i where "map_of (NAME_INDEX_MAP (derived_cls 1)) ''a'' = Some i"
    "?fl ! i = ?fa\<lparr>name := ''a''\<rparr>"
    "\<exists>off. s_slots (PACKER (derived_cls 1)) ! i = (off, field_type ?fa, field_width ?fa)"
    by blast
  with na have a: "?fl ! 1 = ?fa\<lparr>name := ''a''\<rparr>"
    "\<exists>off. s_slots (PACKER (derived_cls 1)) ! 1 = (off, field_type ?fa, field_width ?fa)"
    by simp_all
  from t1 fb obtain j where "map_of (NAME_INDEX_MAP (derived_cls 1)) ''b'' = Some j"
    "?fl ! j = ?fb\<lparr>name := ''b''\<rparr>"
    "\<exists>off. s_slots (PACKER (derived_cls 1)) ! j = (off, field_type ?fb, field_width ?fb)"
    by blast
  with nb have b: "?fl ! 0 = ?fb\<lparr>name := ''b''\<rparr>"
    "\<exists>off. s_slots (PACKER (derived_cls 1)) ! 0 = (off, field_type ?fb, field_width ?fb)"
    by simp_all
  from t2 fc have c: "map_of (NAME_INDEX_MAP (derived_cls 1)) ''c'' = None" by blast
  have a1: "?fl ! 1 = \<lparr>field_type = UINT32_T, default_value = PyInt 7, str_len = None, count = 2,
      index = 0, name = ''a''\<rparr>" using a(1) by simp
  have a2: "\<exists>off. s_slots (PACKER (derived_cls 1)) ! 1 = (off, UINT32_T, 4)"
    using a(2) by (simp add: field_width_def)
  have b1: "?fl ! 0 = \<lparr>field_type = UINT16_T, default_value = PyNone, str_len = None, count = 1,
      index = 0, name = ''b''\<rparr>" using b(1) by simp
  have b2: "\<exists>off. s_slots (PACKER (derived_cls 1)) ! 0 = (off, UINT16_T, 2)"
    using b(2) by (simp add: field_width_def)
  have f: "BASE_STRUCT_FORMAT (derived_cls 1) = ''HI''" by (simp add: derived_cls_def)
  from new bo little_supported dist once bound fa fb fc na nb c a1 b1 a2 b2 f t5
  show ?thesis by blast
qed

lemma update_snd:
  "distinct (map snd al) \<Longrightarrow> v \<notin> snd ` set al \<Longrightarrow>
   distinct (map snd (AList.update x v al)) \<and> snd ` set (AList.update x v al) \<subseteq> insert v (snd ` set al)"
  by (induction al) (auto split: if_splits)

lemma updates_snd:
  "distinct (map snd al) \<Longrightarrow> \<forall>v \<in> snd ` set al. v < k \<Longrightarrow>
   distinct (map snd (AList.updates ks [k..<k + length ks] al)) \<and>
   (\<forall>v \<in> snd ` set (AList.updates ks [k..<k + length ks] al). v < k + length ks)"
proof (induction ks arbitrary: k al)
  case Nil
  then show ?case by (simp add: AList.updates_def)
next
  case (Cons x ks)
  have u: "[k..<k + length (x # ks)] = k # [Suc k..<Suc k + length ks]"
    by (subst upt_rec) simp
  from Cons.prems have "k \<notin> snd ` set al" by auto
  from update_snd [OF Cons.prems(1) this, of x]
  have d: "distinct (map snd (AList.update x k al))"
    and sub: "snd ` set (AList.update x k al) \<subseteq> insert k (snd ` set al)" by simp_all
  have "\<forall>v \<in> snd ` set (AList.update x k al). v < Suc k"
  proof
    fix v assume "v \<in> snd ` set (AList.update x k al)"
    with sub have "v = k \<or> v \<in> snd ` set al" by blast
    with Cons.prems(2) show "v < Suc k" by (auto simp: less_Suc_eq)
  qed
  note d this
  from Cons.IH [OF this] show ?case
    by (simp only: u updates_Cons) simp
qed

lemma MetaStruct_new_class_ok:
  assumes "MetaStruct_new p attrs bases h0 = (Inr cls, h1)"
  shows "class_ok cls h1"
proof -
  let ?fl = "field_list (class_mro attrs bases)"
  from MetaStruct_new_Inr [OF assms] have nim: "NAME_INDEX_MAP cls = AList.updates (map name ?fl) [0..<length ?fl] []"
    and dv: "DEFAULT_VALUES cls = length h0" and h1: "h1 = h0 @ [PyList (map default_value ?fl)]"
    by simp_all
  from updates_snd [of "[]" 0 "map name ?fl"]
  have "distinct (map snd (NAME_INDEX_MAP cls))" "\<forall>v \<in> snd ` set (NAME_INDEX_MAP cls). v < length ?fl"
    by (simp_all add: nim)
  moreover have "distinct (map fst (NAME_INDEX_MAP cls))" by (simp add: nim AList.distinct_updates)
  ultimately show ?thesis
    by (simp add: class_ok_def dv h1 list_all_iff)
qed

end
